theory Spec2Isabelle
  imports Main "HOL-Library.Word"
begin

unbundle bit_operations_syntax

section \<open>Frames and codecs\<close>

text \<open>
  The recorder \<^verbatim>\<open>MediaFileOut\<close> (\<^verbatim>\<open>source/core/woogeen_base/MediaFileOut.cpp\<close>) and the
  slot adapter \<^verbatim>\<open>FakedVideoFrameDecoder\<close>
  (\<^verbatim>\<open>source/core/mcu/media/FakedVideoFrameDecoder.h\<close>) are embedded as state-passing
  functions. A method of the class takes the object's state and returns the new one; a
  failed \<^verbatim>\<open>assert\<close> or a dereference of a null pointer ends the process and is the
  \<open>Inl\<close> branch of the result. Calls into the muxing library, the timer and the event
  channel are appended, in call order, to the log \<open>io\<close> of the state. Methods run one at
  a time: the interleaving of the producer threads and the timer thread is taken at the
  granularity of whole method calls.
\<close>

type_synonym byte = "8 word"

text \<open>
  The enumeration \<^verbatim>\<open>FrameFormat\<close> is declared outside the two files; the constructors
  are the values the files name, and \<open>FRAME_FORMAT_OTHER\<close> stands for every other value
  of the integer tag.
\<close>

datatype FrameFormat =
    FRAME_FORMAT_UNKNOWN
  | FRAME_FORMAT_I420
  | FRAME_FORMAT_VP8
  | FRAME_FORMAT_H264
  | FRAME_FORMAT_PCMU
  | FRAME_FORMAT_OPUS
  | FRAME_FORMAT_OTHER nat

datatype AVCodecID =
    AV_CODEC_ID_NONE
  | AV_CODEC_ID_VP8
  | AV_CODEC_ID_H264
  | AV_CODEC_ID_PCM_MULAW
  | AV_CODEC_ID_OPUS

datatype AVMediaType = AVMEDIA_TYPE_UNKNOWN | AVMEDIA_TYPE_VIDEO | AVMEDIA_TYPE_AUDIO

datatype AVPixelFormat = AV_PIX_FMT_NONE | AV_PIX_FMT_YUV420P

datatype AVSampleFormat = AV_SAMPLE_FMT_NONE | AV_SAMPLE_FMT_S16 | AV_SAMPLE_FMT_FLT

fun frameFormat2VideoCodecID :: "FrameFormat \<Rightarrow> AVCodecID" where
  "frameFormat2VideoCodecID FRAME_FORMAT_VP8 = AV_CODEC_ID_VP8"
| "frameFormat2VideoCodecID FRAME_FORMAT_H264 = AV_CODEC_ID_H264"
| "frameFormat2VideoCodecID _ = AV_CODEC_ID_VP8"

fun frameFormat2AudioCodecID :: "FrameFormat \<Rightarrow> AVCodecID" where
  "frameFormat2AudioCodecID FRAME_FORMAT_PCMU = AV_CODEC_ID_PCM_MULAW"
| "frameFormat2AudioCodecID FRAME_FORMAT_OPUS = AV_CODEC_ID_OPUS"
| "frameFormat2AudioCodecID _ = AV_CODEC_ID_PCM_MULAW"

text \<open>
  A \<^verbatim>\<open>Frame\<close> as \<^verbatim>\<open>onFrame\<close> reads it. The pointer \<^verbatim>\<open>frame.payload\<close> is the list of
  the bytes from its address on, so that \<^verbatim>\<open>payload += n\<close> is \<open>drop n\<close>;
  \<^verbatim>\<open>frame.length\<close> is \<open>frame_length\<close>. The fields \<open>video_width\<close>, \<open>video_height\<close> are
  \<^verbatim>\<open>additionalInfo.video.width/height\<close>, and \<open>audio_isRtpPacket\<close>, \<open>audio_channels\<close>,
  \<open>audio_sampleRate\<close> are the members of \<^verbatim>\<open>additionalInfo.audio\<close>.
\<close>

record Frame =
  format :: FrameFormat
  payload :: "byte list"
  frame_length :: nat
  video_width :: nat
  video_height :: nat
  audio_isRtpPacket :: bool
  audio_channels :: int
  audio_sampleRate :: int

record EncodedFrame =
  m_payloadData :: "byte list"
  m_payloadSize :: nat
  m_timeStamp :: nat

section \<open>The muxing backend as the recorder sees it\<close>

definition AVFMT_NOFILE :: "32 word" where
  "AVFMT_NOFILE = 0x0001"

definition AVFMT_GLOBALHEADER :: "32 word" where
  "AVFMT_GLOBALHEADER = 0x0040"

definition AVFMT_VARIABLE_FPS :: "32 word" where
  "AVFMT_VARIABLE_FPS = 0x0400"

definition CODEC_FLAG_GLOBAL_HEADER :: "32 word" where
  "CODEC_FLAG_GLOBAL_HEADER = 0x00400000"

text \<open>The codec context of a stream; \<open>cflags\<close> is its member \<^verbatim>\<open>flags\<close>.\<close>

record AVCodecContext =
  codec_id :: AVCodecID
  codec_type :: AVMediaType
  width :: nat
  height :: nat
  pix_fmt :: AVPixelFormat
  channels :: int
  channel_layout :: nat
  sample_rate :: int
  sample_fmt :: AVSampleFormat
  cflags :: "32 word"

record AVStream =
  index :: nat
  codec :: AVCodecContext

record AVOutputFormat =
  flags :: "32 word"
  video_codec :: AVCodecID

text \<open>\<open>pb_open\<close> says whether \<^verbatim>\<open>avio_open\<close> has set the member \<^verbatim>\<open>pb\<close>.\<close>

record AVFormatContext =
  filename :: string
  oformat :: AVOutputFormat
  nb_streams :: nat
  pb_open :: bool

text \<open>
  A packet as handed to \<^verbatim>\<open>av_write_frame\<close>; \<open>size_p\<close> is its member \<^verbatim>\<open>size\<close>. Its
  \<^verbatim>\<open>pts\<close> is a floating-point quotient by a time base that the muxer chooses; it is
  left out.
\<close>

record AVPacket =
  data :: "byte list"
  size_p :: nat
  stream_index :: int

datatype event =
    JobTimerStop
  | AvioOpen string bool
  | AvDumpFormat
  | AvformatWriteHeader bool
  | AvWriteFrame AVPacket
  | AvWriteTrailer
  | AvcodecClose AVCodecContext
  | AvioClose
  | AvformatFreeContext
  | NotifyAsyncEvent string string

text \<open>
  What a call depends on outside the recorder: whether the library's
  \<^verbatim>\<open>avformat_new_stream\<close>, \<^verbatim>\<open>avio_open\<close> and \<^verbatim>\<open>avformat_write_header\<close> succeed, the
  clock a queue stamps a pushed frame with, \<^verbatim>\<open>RTPHeader::getHeaderLength\<close> of the bytes a
  pointer refers to (declared in \<^verbatim>\<open>rtputils.h\<close>), and the library's
  \<^verbatim>\<open>av_get_default_channel_layout\<close>.
\<close>

record Env =
  new_stream_ok :: bool
  avio_open_ok :: bool
  write_header_ok :: bool
  now :: nat
  getHeaderLength :: "byte list \<Rightarrow> nat"
  av_get_default_channel_layout :: "int \<Rightarrow> nat"

datatype fault = AssertionFailed | NullPointer

section \<open>The recording session\<close>

datatype Status = Context_ERROR | Context_EMPTY | Context_READY

record MediaFileOut =
  m_status :: Status
  m_videoStream :: "AVStream option"
  m_audioStream :: "AVStream option"
  m_context :: "AVFormatContext option"
  m_avTrailerNeeded :: bool
  m_videoId :: int
  m_audioId :: int
  m_videoFrameFormat :: FrameFormat
  m_audioFrameFormat :: FrameFormat
  m_recordPath :: string
  m_snapshotInterval :: int
  m_videoQueue :: "EncodedFrame list"
  m_audioQueue :: "EncodedFrame list"
  io :: "event list"

text \<open>
  Modelled from the spec: the class \<^verbatim>\<open>MediaFrameQueue\<close> is not in the two files. It is
  the FIFO of the specification: \<^verbatim>\<open>pushFrame(p, n)\<close> appends the \<open>n\<close> bytes at \<open>p\<close>
  with the time of the push, \<^verbatim>\<open>popFrame\<close> removes the oldest frame or returns null.
\<close>

definition pushFrame :: "nat \<Rightarrow> byte list \<Rightarrow> nat \<Rightarrow> EncodedFrame list \<Rightarrow> EncodedFrame list" where
  "pushFrame ts p n q = q @ [\<lparr>m_payloadData = take n p, m_payloadSize = n, m_timeStamp = ts\<rparr>]"

fun popFrame :: "EncodedFrame list \<Rightarrow> (EncodedFrame \<times> EncodedFrame list) option" where
  "popFrame [] = None"
| "popFrame (e # q) = Some (e, q)"

text \<open>
  The library's \<^verbatim>\<open>avformat_new_stream\<close>: null on failure; otherwise a stream whose index
  is the number of streams the context held, with a codec context of defaults.
\<close>

definition codec_defaults :: AVCodecContext where
  "codec_defaults = \<lparr>codec_id = AV_CODEC_ID_NONE, codec_type = AVMEDIA_TYPE_UNKNOWN,
     width = 0, height = 0, pix_fmt = AV_PIX_FMT_NONE, channels = 0, channel_layout = 0,
     sample_rate = 0, sample_fmt = AV_SAMPLE_FMT_NONE, cflags = 0\<rparr>"

definition avformat_new_stream :: "Env \<Rightarrow> AVFormatContext \<Rightarrow> (AVStream \<times> AVFormatContext) option" where
  "avformat_new_stream env ctx =
     (if new_stream_ok env
      then Some (\<lparr>index = nb_streams ctx, codec = codec_defaults\<rparr>,
                 ctx\<lparr>nb_streams := nb_streams ctx + 1\<rparr>)
      else None)"

text \<open>
  Modelled from the spec: the base class \<^verbatim>\<open>AVStreamOut\<close>, whose constructor initialises
  \<open>m_status\<close>, is not in the two files. The state machine of the specification starts
  in \<open>Empty\<close>.
\<close>

definition AVStreamOut_initial_status :: Status where
  "AVStreamOut_initial_status = Context_EMPTY"

text \<open>
  The constructor. \<open>guess\<close> is what \<^verbatim>\<open>av_guess_format\<close> returns for the file name; the
  assertion on it fails for a null result. The context is the fresh one that
  \<^verbatim>\<open>avformat_alloc_context\<close> returns, with the first 1024 characters of the path as its
  file name.
\<close>

definition MediaFileOut_new :: "string \<Rightarrow> int \<Rightarrow> AVOutputFormat option \<Rightarrow> fault + MediaFileOut" where
  "MediaFileOut_new recordUrl snapshotInterval guess =
     (case guess of
        None \<Rightarrow> Inl AssertionFailed
      | Some fmt \<Rightarrow>
          Inr \<lparr>m_status = AVStreamOut_initial_status,
               m_videoStream = None,
               m_audioStream = None,
               m_context = Some \<lparr>filename = take 1024 recordUrl, oformat = fmt,
                                  nb_streams = 0, pb_open = False\<rparr>,
               m_avTrailerNeeded = False,
               m_videoId = - 1,
               m_audioId = - 1,
               m_videoFrameFormat = FRAME_FORMAT_UNKNOWN,
               m_audioFrameFormat = FRAME_FORMAT_UNKNOWN,
               m_recordPath = recordUrl,
               m_snapshotInterval = snapshotInterval,
               m_videoQueue = [],
               m_audioQueue = [],
               io = []\<rparr>)"

text \<open>
  \<^verbatim>\<open>close\<close>. A stream that exists has a codec context, so the test of
  \<^verbatim>\<open>m_videoStream->codec\<close> against null is the test of the stream pointer. The stream
  pointers are not reset: after \<^verbatim>\<open>avformat_free_context\<close> they still hold the address of
  the descriptors, which the model keeps as their value.
\<close>

definition close :: "MediaFileOut \<Rightarrow> MediaFileOut" where
  "close s =
     (let s1 = s\<lparr>io := io s @ [JobTimerStop]\<rparr>;
          s2 = (if m_context s1 \<noteq> None \<and> m_avTrailerNeeded s1
                then s1\<lparr>io := io s1 @ [AvWriteTrailer]\<rparr> else s1);
          s3 = (case m_videoStream s2 of
                  Some vs \<Rightarrow> s2\<lparr>io := io s2 @ [AvcodecClose (codec vs)]\<rparr>
                | None \<Rightarrow> s2);
          s4 = (case m_audioStream s3 of
                  Some as \<Rightarrow> s3\<lparr>io := io s3 @ [AvcodecClose (codec as)]\<rparr>
                | None \<Rightarrow> s3)
      in (case m_context s4 of
            Some ctx \<Rightarrow>
              (let s5 = (if flags (oformat ctx) AND AVFMT_NOFILE = 0
                         then s4\<lparr>io := io s4 @ [AvioClose]\<rparr> else s4)
               in s5\<lparr>io := io s5 @ [AvformatFreeContext], m_context := None\<rparr>)
          | None \<Rightarrow> s4))"

definition addAudioStream :: "Env \<Rightarrow> AVCodecID \<Rightarrow> int \<Rightarrow> int \<Rightarrow> MediaFileOut \<Rightarrow> fault + (bool \<times> MediaFileOut)" where
  "addAudioStream env cid nbChannels sampleRate s =
     (case m_context s of
        None \<Rightarrow> Inl NullPointer
      | Some ctx \<Rightarrow>
          (case avformat_new_stream env ctx of
             None \<Rightarrow> Inr (False, s\<lparr>m_status := Context_ERROR\<rparr>)
           | Some (stream, ctx1) \<Rightarrow>
               (let c = (codec stream)\<lparr>codec_id := cid,
                          codec_type := AVMEDIA_TYPE_AUDIO,
                          channels := nbChannels,
                          channel_layout := av_get_default_channel_layout env nbChannels,
                          sample_rate := sampleRate,
                          sample_fmt := (if cid = AV_CODEC_ID_OPUS then AV_SAMPLE_FMT_FLT
                                         else AV_SAMPLE_FMT_S16)\<rparr>;
                    c1 = (if flags (oformat ctx1) AND AVFMT_GLOBALHEADER \<noteq> 0
                          then c\<lparr>cflags := cflags c OR CODEC_FLAG_GLOBAL_HEADER\<rparr> else c)
                in Inr (True, s\<lparr>m_context := Some ctx1,
                                 m_audioStream := Some (stream\<lparr>codec := c1\<rparr>)\<rparr>))))"

definition addVideoStream :: "Env \<Rightarrow> AVCodecID \<Rightarrow> nat \<Rightarrow> nat \<Rightarrow> MediaFileOut \<Rightarrow> fault + (bool \<times> MediaFileOut)" where
  "addVideoStream env cid w h s =
     (case m_context s of
        None \<Rightarrow> Inl NullPointer
      | Some ctx0 \<Rightarrow>
          (let ctx = ctx0\<lparr>oformat := (oformat ctx0)\<lparr>video_codec := cid\<rparr>\<rparr>
           in (case avformat_new_stream env ctx of
                 None \<Rightarrow> Inr (False, s\<lparr>m_context := Some ctx, m_status := Context_ERROR\<rparr>)
               | Some (stream, ctx1) \<Rightarrow>
                   (let c = (codec stream)\<lparr>codec_id := cid,
                              codec_type := AVMEDIA_TYPE_VIDEO,
                              width := w,
                              height := h,
                              pix_fmt := AV_PIX_FMT_YUV420P\<rparr>;
                        c1 = (if flags (oformat ctx1) AND AVFMT_GLOBALHEADER \<noteq> 0
                              then c\<lparr>cflags := cflags c OR CODEC_FLAG_GLOBAL_HEADER\<rparr> else c);
                        ctx2 = ctx1\<lparr>oformat := (oformat ctx1)
                                 \<lparr>flags := flags (oformat ctx1) OR AVFMT_VARIABLE_FPS\<rparr>\<rparr>
                    in Inr (True, s\<lparr>m_context := Some ctx2,
                                     m_videoStream := Some (stream\<lparr>codec := c1\<rparr>)\<rparr>)))))"

text \<open>The case \<^verbatim>\<open>FRAME_FORMAT_VP8\<close>/\<^verbatim>\<open>FRAME_FORMAT_H264\<close> of the switch in \<^verbatim>\<open>onFrame\<close>.\<close>

definition onFrame_video :: "Env \<Rightarrow> Frame \<Rightarrow> MediaFileOut \<Rightarrow> fault + MediaFileOut" where
  "onFrame_video env frame s =
     (case m_videoStream s of
        None \<Rightarrow>
          if video_width frame > 0 \<and> video_height frame > 0 then
            (case addVideoStream env (frameFormat2VideoCodecID (format frame))
                    (video_width frame) (video_height frame) s of
               Inl f \<Rightarrow> Inl f
             | Inr (ok, s1) \<Rightarrow>
                 (let s2 = (if ok then s1\<lparr>m_videoFrameFormat := format frame\<rparr> else s1)
                  in Inr (s2\<lparr>m_videoQueue :=
                       pushFrame (now env) (payload frame) (frame_length frame) (m_videoQueue s2)\<rparr>)))
          else Inr s
      | Some vs \<Rightarrow>
          if codec_id (codec vs) \<noteq> frameFormat2VideoCodecID (format frame)
          then Inr (s\<lparr>m_status := Context_ERROR\<rparr>)
          else Inr (s\<lparr>m_videoQueue :=
                 pushFrame (now env) (payload frame) (frame_length frame) (m_videoQueue s)\<rparr>))"

text \<open>Lines 151 to 161: strip the RTP header of a flagged frame and push the rest.\<close>

definition pushAudio :: "Env \<Rightarrow> Frame \<Rightarrow> MediaFileOut \<Rightarrow> fault + MediaFileOut" where
  "pushAudio env frame s =
     (if audio_isRtpPacket frame then
        (let headerLength = getHeaderLength env (payload frame)
         in if frame_length frame \<ge> headerLength
            then Inr (s\<lparr>m_audioQueue := pushFrame (now env) (drop headerLength (payload frame))
                          (frame_length frame - headerLength) (m_audioQueue s)\<rparr>)
            else Inl AssertionFailed)
      else Inr (s\<lparr>m_audioQueue :=
             pushFrame (now env) (payload frame) (frame_length frame) (m_audioQueue s)\<rparr>))"

text \<open>The case \<^verbatim>\<open>FRAME_FORMAT_PCMU\<close>/\<^verbatim>\<open>FRAME_FORMAT_OPUS\<close> of the switch.\<close>

definition onFrame_audio :: "Env \<Rightarrow> Frame \<Rightarrow> MediaFileOut \<Rightarrow> fault + MediaFileOut" where
  "onFrame_audio env frame s =
     (if m_videoStream s \<noteq> None \<and> m_audioStream s = None then
        (case addAudioStream env (frameFormat2AudioCodecID (format frame))
                (audio_channels frame) (audio_sampleRate frame) s of
           Inl f \<Rightarrow> Inl f
         | Inr (ok, s1) \<Rightarrow>
             pushAudio env frame (if ok then s1\<lparr>m_audioFrameFormat := format frame\<rparr> else s1))
      else if (case m_audioStream s of
                 Some as \<Rightarrow> codec_id (codec as) \<noteq> frameFormat2AudioCodecID (format frame)
               | None \<Rightarrow> False)
      then Inr (s\<lparr>m_status := Context_ERROR\<rparr>)
      else pushAudio env frame s)"

definition onFrame :: "Env \<Rightarrow> Frame \<Rightarrow> MediaFileOut \<Rightarrow> fault + MediaFileOut" where
  "onFrame env frame s =
     (if m_status s = Context_ERROR then Inr s
      else if format frame = FRAME_FORMAT_VP8 \<or> format frame = FRAME_FORMAT_H264
      then onFrame_video env frame s
      else if format frame = FRAME_FORMAT_PCMU \<or> format frame = FRAME_FORMAT_OPUS
      then onFrame_audio env frame s
      else Inr (s\<lparr>m_status := Context_ERROR\<rparr>))"

section \<open>Writing packets and the timer tick\<close>

text \<open>
  The packet of \<^verbatim>\<open>writeVideoFrame\<close> (lines 267 to 272) and of \<^verbatim>\<open>writeAudioFrame\<close>
  (lines 279 to 284).
\<close>

definition videoPacket :: "EncodedFrame \<Rightarrow> AVPacket" where
  "videoPacket encodedVideoFrame =
     \<lparr>data = m_payloadData encodedVideoFrame,
      size_p = m_payloadSize encodedVideoFrame,
      stream_index = 0\<rparr>"

definition audioPacket :: "EncodedFrame \<Rightarrow> AVPacket" where
  "audioPacket encodedAudioFrame =
     \<lparr>data = m_payloadData encodedAudioFrame,
      size_p = m_payloadSize encodedAudioFrame,
      stream_index = 1\<rparr>"

text \<open>
  Both writers read the time base through the stream pointer and pass the context to
  \<^verbatim>\<open>av_write_frame\<close>, whose result is ignored.
\<close>

definition writeVideoFrame :: "EncodedFrame \<Rightarrow> MediaFileOut \<Rightarrow> fault + MediaFileOut" where
  "writeVideoFrame encodedVideoFrame s =
     (case m_videoStream s of
        None \<Rightarrow> Inl NullPointer
      | Some vs \<Rightarrow>
          (case m_context s of
             None \<Rightarrow> Inl NullPointer
           | Some ctx \<Rightarrow> Inr (s\<lparr>io := io s @ [AvWriteFrame (videoPacket encodedVideoFrame)]\<rparr>)))"

definition writeAudioFrame :: "EncodedFrame \<Rightarrow> MediaFileOut \<Rightarrow> fault + MediaFileOut" where
  "writeAudioFrame encodedAudioFrame s =
     (case m_audioStream s of
        None \<Rightarrow> Inl NullPointer
      | Some as \<Rightarrow>
          (case m_context s of
             None \<Rightarrow> Inl NullPointer
           | Some ctx \<Rightarrow> Inr (s\<lparr>io := io s @ [AvWriteFrame (audioPacket encodedAudioFrame)]\<rparr>)))"

text \<open>The two loops at the end of \<^verbatim>\<open>onTimeout\<close>: pop until the queue is empty.\<close>

function drainAudio :: "MediaFileOut \<Rightarrow> fault + MediaFileOut" where
  "drainAudio s =
     (case popFrame (m_audioQueue s) of
        None \<Rightarrow> Inr s
      | Some (mediaFrame, q) \<Rightarrow>
          (case writeAudioFrame mediaFrame (s\<lparr>m_audioQueue := q\<rparr>) of
             Inl f \<Rightarrow> Inl f
           | Inr s1 \<Rightarrow> drainAudio s1))"
  by pat_completeness auto
termination
  by (relation "measure (\<lambda>s. length (m_audioQueue s))")
     (auto simp: writeAudioFrame_def split: option.splits elim!: popFrame.elims)

function drainVideo :: "MediaFileOut \<Rightarrow> fault + MediaFileOut" where
  "drainVideo s =
     (case popFrame (m_videoQueue s) of
        None \<Rightarrow> Inr s
      | Some (mediaFrame, q) \<Rightarrow>
          (case writeVideoFrame mediaFrame (s\<lparr>m_videoQueue := q\<rparr>) of
             Inl f \<Rightarrow> Inl f
           | Inr s1 \<Rightarrow> drainVideo s1))"
  by pat_completeness auto
termination
  by (relation "measure (\<lambda>s. length (m_videoQueue s))")
     (auto simp: writeVideoFrame_def split: option.splits elim!: popFrame.elims)

declare drainAudio.simps [simp del] drainVideo.simps [simp del]

definition drainQueues :: "MediaFileOut \<Rightarrow> fault + MediaFileOut" where
  "drainQueues s = (case drainAudio s of Inl f \<Rightarrow> Inl f | Inr s1 \<Rightarrow> drainVideo s1)"

definition onTimeout :: "Env \<Rightarrow> MediaFileOut \<Rightarrow> fault + MediaFileOut" where
  "onTimeout env s =
     (case m_status s of
        Context_EMPTY \<Rightarrow>
          if m_audioStream s \<noteq> None \<and> m_videoStream s \<noteq> None then
            (case m_context s of
               None \<Rightarrow> Inl NullPointer
             | Some ctx \<Rightarrow>
                 if flags (oformat ctx) AND AVFMT_NOFILE = 0 \<and> \<not> avio_open_ok env then
                   Inr (s\<lparr>m_status := Context_ERROR,
                          io := io s @ [AvioOpen (filename ctx) False,
                            NotifyAsyncEvent ''RecordingStream''
                              ''output file does not exist or cannot be opened for write'']\<rparr>)
                 else
                   (let s1 = (if flags (oformat ctx) AND AVFMT_NOFILE = 0
                              then s\<lparr>m_context := Some (ctx\<lparr>pb_open := True\<rparr>),
                                     io := io s @ [AvioOpen (filename ctx) True]\<rparr>
                              else s);
                        s2 = s1\<lparr>io := io s1 @ [AvDumpFormat]\<rparr>
                    in if \<not> write_header_ok env then
                         Inr (s2\<lparr>m_status := Context_ERROR,
                                 io := io s2 @ [AvformatWriteHeader False,
                                   NotifyAsyncEvent ''RecordingStream'' ''write file header error'']\<rparr>)
                       else
                         drainQueues (s2\<lparr>m_avTrailerNeeded := True,
                                         m_status := Context_READY,
                                         io := io s2 @ [AvformatWriteHeader True]\<rparr>)))
          else Inr s
      | Context_READY \<Rightarrow> drainQueues s
      | Context_ERROR \<Rightarrow>
          Inr (s\<lparr>io := io s @ [NotifyAsyncEvent ''RecordingStream''
                                  ''context initialization failed'']\<rparr>))"

section \<open>Sessions as sequences of calls\<close>

datatype call = OnFrame Env Frame | OnTimeout Env | Close

fun step :: "call \<Rightarrow> MediaFileOut \<Rightarrow> fault + MediaFileOut" where
  "step (OnFrame env frame) s = onFrame env frame s"
| "step (OnTimeout env) s = onTimeout env s"
| "step Close s = Inr (close s)"

fun run :: "call list \<Rightarrow> MediaFileOut \<Rightarrow> fault + MediaFileOut" where
  "run [] s = Inr s"
| "run (c # cs) s = (case step c s of Inl f \<Rightarrow> Inl f | Inr s1 \<Rightarrow> run cs s1)"

section \<open>The slot adapter\<close>

text \<open>
  The compositor is a collaborator: it is the log of the calls made on it. The decoded
  frame that \<^verbatim>\<open>pushInput\<close> receives is the payload pointer, reinterpreted.
\<close>

datatype compositor_call =
    ActivateInput int
  | DeActivateInput int
  | PushInput int "byte list"

record FakedVideoFrameDecoder =
  m_slot :: int

definition FakedVideoFrameDecoder_new ::
    "int \<Rightarrow> compositor_call list \<Rightarrow> FakedVideoFrameDecoder \<times> compositor_call list" where
  "FakedVideoFrameDecoder_new slot compositor =
     (\<lparr>m_slot = slot\<rparr>, compositor @ [ActivateInput slot])"

definition FakedVideoFrameDecoder_delete ::
    "FakedVideoFrameDecoder \<Rightarrow> compositor_call list \<Rightarrow> compositor_call list" where
  "FakedVideoFrameDecoder_delete d compositor = compositor @ [DeActivateInput (m_slot d)]"

definition decoder_onFrame ::
    "FrameFormat \<Rightarrow> byte list \<Rightarrow> int \<Rightarrow> nat \<Rightarrow> FakedVideoFrameDecoder \<Rightarrow> compositor_call list
       \<Rightarrow> fault + compositor_call list" where
  "decoder_onFrame fmt pl len ts d compositor =
     (if fmt = FRAME_FORMAT_I420 then Inr (compositor @ [PushInput (m_slot d) pl])
      else Inl AssertionFailed)"

definition setInput :: "FrameFormat \<Rightarrow> FakedVideoFrameDecoder \<Rightarrow> fault + bool" where
  "setInput fmt d = (if fmt = FRAME_FORMAT_I420 then Inr True else Inl AssertionFailed)"

definition unsetInput :: "FakedVideoFrameDecoder \<Rightarrow> compositor_call list \<Rightarrow> compositor_call list" where
  "unsetInput d compositor = compositor"

text \<open>
  The life of one adapter: constructed, used through a sequence of calls of its public
  methods, destroyed. A failed assertion ends the process before the destructor runs.
\<close>

datatype decoder_call =
    SetInput FrameFormat
  | UnsetInput
  | DecoderOnFrame FrameFormat "byte list" int nat

fun is_DecoderOnFrame :: "decoder_call \<Rightarrow> bool" where
  "is_DecoderOnFrame (DecoderOnFrame fmt pl len ts) = True"
| "is_DecoderOnFrame _ = False"

fun decoder_step ::
    "FakedVideoFrameDecoder \<Rightarrow> decoder_call \<Rightarrow> compositor_call list \<Rightarrow> fault + compositor_call list" where
  "decoder_step d (SetInput fmt) compositor =
     (case setInput fmt d of Inl f \<Rightarrow> Inl f | Inr b \<Rightarrow> Inr compositor)"
| "decoder_step d UnsetInput compositor = Inr (unsetInput d compositor)"
| "decoder_step d (DecoderOnFrame fmt pl len ts) compositor =
     decoder_onFrame fmt pl len ts d compositor"

fun decoder_run ::
    "FakedVideoFrameDecoder \<Rightarrow> decoder_call list \<Rightarrow> compositor_call list \<Rightarrow> fault + compositor_call list" where
  "decoder_run d [] compositor = Inr compositor"
| "decoder_run d (c # cs) compositor =
     (case decoder_step d c compositor of Inl f \<Rightarrow> Inl f | Inr compositor1 \<Rightarrow> decoder_run d cs compositor1)"

definition lifetime :: "int \<Rightarrow> decoder_call list \<Rightarrow> compositor_call list \<Rightarrow> fault + compositor_call list" where
  "lifetime slot cs compositor =
     (case FakedVideoFrameDecoder_new slot compositor of
        (d, compositor1) \<Rightarrow>
          (case decoder_run d cs compositor1 of
             Inl f \<Rightarrow> Inl f
           | Inr compositor2 \<Rightarrow> Inr (FakedVideoFrameDecoder_delete d compositor2)))"

section \<open>Concrete inputs\<close>

text \<open>
  A backend on which every library call succeeds and every RTP header has the minimal
  twelve bytes, a container format that wants global headers and a file handle, and the
  session that the constructor builds for it.
\<close>

definition example_env :: Env where
  "example_env =
     \<lparr>new_stream_ok = True, avio_open_ok = True, write_header_ok = True, now = 0,
      getHeaderLength = (\<lambda>p. 12),
      av_get_default_channel_layout = (\<lambda>n. if n = 1 then 4 else if n = 2 then 3 else 0)\<rparr>"

definition example_format :: AVOutputFormat where
  "example_format = \<lparr>flags = 0x0040, video_codec = AV_CODEC_ID_NONE\<rparr>"

definition example_session :: MediaFileOut where
  "example_session =
     \<lparr>m_status = Context_EMPTY,
      m_videoStream = None,
      m_audioStream = None,
      m_context = Some \<lparr>filename = ''room.mkv'', oformat = example_format,
                         nb_streams = 0, pb_open = False\<rparr>,
      m_avTrailerNeeded = False,
      m_videoId = - 1,
      m_audioId = - 1,
      m_videoFrameFormat = FRAME_FORMAT_UNKNOWN,
      m_audioFrameFormat = FRAME_FORMAT_UNKNOWN,
      m_recordPath = ''room.mkv'',
      m_snapshotInterval = 0,
      m_videoQueue = [],
      m_audioQueue = [],
      io = []\<rparr>"

definition vp8_frame :: Frame where
  "vp8_frame =
     \<lparr>format = FRAME_FORMAT_VP8, payload = [1, 2, 3], frame_length = 3,
      video_width = 640, video_height = 480,
      audio_isRtpPacket = False, audio_channels = 0, audio_sampleRate = 0\<rparr>"

definition h264_frame :: Frame where
  "h264_frame =
     \<lparr>format = FRAME_FORMAT_H264, payload = [4, 5], frame_length = 2,
      video_width = 640, video_height = 480,
      audio_isRtpPacket = False, audio_channels = 0, audio_sampleRate = 0\<rparr>"

definition opus_frame :: Frame where
  "opus_frame =
     \<lparr>format = FRAME_FORMAT_OPUS,
      payload = [128, 111, 0, 1, 0, 0, 0, 0, 0, 0, 0, 7, 21, 22, 23], frame_length = 15,
      video_width = 0, video_height = 0,
      audio_isRtpPacket = True, audio_channels = 2, audio_sampleRate = 48000\<rparr>"

definition pcmu_frame :: Frame where
  "pcmu_frame =
     \<lparr>format = FRAME_FORMAT_PCMU, payload = [9, 8, 7], frame_length = 3,
      video_width = 0, video_height = 0,
      audio_isRtpPacket = False, audio_channels = 1, audio_sampleRate = 8000\<rparr>"

text \<open>
  The same session after \<open>vp8_frame\<close>, then after \<open>opus_frame\<close> as well, then after a
  tick, and an encoded frame.
\<close>

definition example_video_codec :: AVCodecContext where
  "example_video_codec =
     \<lparr>codec_id = AV_CODEC_ID_VP8, codec_type = AVMEDIA_TYPE_VIDEO,
      width = 640, height = 480, pix_fmt = AV_PIX_FMT_YUV420P,
      channels = 0, channel_layout = 0, sample_rate = 0,
      sample_fmt = AV_SAMPLE_FMT_NONE, cflags = 0x00400000\<rparr>"

definition example_audio_codec :: AVCodecContext where
  "example_audio_codec =
     \<lparr>codec_id = AV_CODEC_ID_OPUS, codec_type = AVMEDIA_TYPE_AUDIO,
      width = 0, height = 0, pix_fmt = AV_PIX_FMT_NONE,
      channels = 2, channel_layout = 3, sample_rate = 48000,
      sample_fmt = AV_SAMPLE_FMT_FLT, cflags = 0x00400000\<rparr>"

definition video_session :: MediaFileOut where
  "video_session = example_session
     \<lparr>m_videoStream := Some \<lparr>index = 0, codec = example_video_codec\<rparr>,
      m_context := Some \<lparr>filename = ''room.mkv'',
                          oformat = \<lparr>flags = 0x0440, video_codec = AV_CODEC_ID_VP8\<rparr>,
                          nb_streams = 1, pb_open = False\<rparr>,
      m_videoFrameFormat := FRAME_FORMAT_VP8,
      m_videoQueue := [\<lparr>m_payloadData = [1, 2, 3], m_payloadSize = 3, m_timeStamp = 0\<rparr>]\<rparr>"

definition av_session :: MediaFileOut where
  "av_session = video_session
     \<lparr>m_audioStream := Some \<lparr>index = 1, codec = example_audio_codec\<rparr>,
      m_context := Some \<lparr>filename = ''room.mkv'',
                          oformat = \<lparr>flags = 0x0440, video_codec = AV_CODEC_ID_VP8\<rparr>,
                          nb_streams = 2, pb_open = False\<rparr>,
      m_audioFrameFormat := FRAME_FORMAT_OPUS,
      m_audioQueue := [\<lparr>m_payloadData = [21, 22, 23], m_payloadSize = 3, m_timeStamp = 0\<rparr>]\<rparr>"

definition ready_session :: MediaFileOut where
  "ready_session = av_session
     \<lparr>m_status := Context_READY,
      m_context := Some \<lparr>filename = ''room.mkv'',
                          oformat = \<lparr>flags = 0x0440, video_codec = AV_CODEC_ID_VP8\<rparr>,
                          nb_streams = 2, pb_open = True\<rparr>,
      m_avTrailerNeeded := True,
      m_videoQueue := [],
      m_audioQueue := [],
      io := [AvioOpen ''room.mkv'' True, AvDumpFormat, AvformatWriteHeader True,
             AvWriteFrame \<lparr>data = [21, 22, 23], size_p = 3, stream_index = 1\<rparr>,
             AvWriteFrame \<lparr>data = [1, 2, 3], size_p = 3, stream_index = 0\<rparr>]\<rparr>"

definition example_encoded :: EncodedFrame where
  "example_encoded = \<lparr>m_payloadData = [1, 2, 3], m_payloadSize = 3, m_timeStamp = 0\<rparr>"

text \<open>
  A backend whose \<^verbatim>\<open>avio_open\<close> fails, an RTP packet of three bytes, shorter than its
  header, and the session that has received \<open>opus_frame\<close>, \<open>vp8_frame\<close> and
  \<open>opus_frame\<close> again, in this order, and then seen one tick on the failing backend and
  one more tick.
\<close>

definition failing_env :: Env where
  "failing_env = example_env\<lparr>avio_open_ok := False\<rparr>"

definition short_rtp_frame :: Frame where
  "short_rtp_frame =
     \<lparr>format = FRAME_FORMAT_OPUS, payload = [128, 111, 0], frame_length = 3,
      video_width = 0, video_height = 0,
      audio_isRtpPacket = True, audio_channels = 2, audio_sampleRate = 48000\<rparr>"

definition stuck_session :: MediaFileOut where
  "stuck_session = av_session
     \<lparr>m_status := Context_ERROR,
      m_audioQueue := [\<lparr>m_payloadData = [21, 22, 23], m_payloadSize = 3, m_timeStamp = 0\<rparr>,
                       \<lparr>m_payloadData = [21, 22, 23], m_payloadSize = 3, m_timeStamp = 0\<rparr>],
      io := [AvioOpen ''room.mkv'' False,
             NotifyAsyncEvent ''RecordingStream''
               ''output file does not exist or cannot be opened for write'',
             NotifyAsyncEvent ''RecordingStream'' ''context initialization failed'']\<rparr>"

text \<open>Observations on the log and on the calls of an adapter.\<close>

fun is_write_header :: "event \<Rightarrow> bool" where
  "is_write_header (AvformatWriteHeader ok) = True"
| "is_write_header _ = False"

definition new_events :: "MediaFileOut \<Rightarrow> MediaFileOut \<Rightarrow> event list" where
  "new_events s s1 = drop (length (io s)) (io s1)"

fun pushed :: "int \<Rightarrow> decoder_call list \<Rightarrow> compositor_call list" where
  "pushed slot [] = []"
| "pushed slot (DecoderOnFrame fmt pl len ts # cs) = PushInput slot pl # pushed slot cs"
| "pushed slot (c # cs) = pushed slot cs"

text \<open>
  Two invariants of a session. The first: the streams a session holds were created video
  first, on the context the constructor allocated, so that their indices are 0 and 1 and
  the context counts exactly them (a closed session has no context left). The second: as
  long as the status is \<open>Empty\<close> the log holds no header write, and it never holds two.
\<close>

definition streams_inv :: "MediaFileOut \<Rightarrow> bool" where
  "streams_inv s =
     (case m_videoStream s of
        None \<Rightarrow>
          m_audioStream s = None
          \<and> (case m_context s of None \<Rightarrow> True | Some ctx \<Rightarrow> nb_streams ctx = 0)
      | Some vs \<Rightarrow>
          index vs = 0
          \<and> (case m_audioStream s of
                None \<Rightarrow> (case m_context s of None \<Rightarrow> True | Some ctx \<Rightarrow> nb_streams ctx = 1)
              | Some as \<Rightarrow>
                  index as = 1
                  \<and> (case m_context s of None \<Rightarrow> True | Some ctx \<Rightarrow> nb_streams ctx = 2)))"

definition header_inv :: "MediaFileOut \<Rightarrow> bool" where
  "header_inv s =
     ((if m_status s = Context_EMPTY then \<not> list_ex is_write_header (io s) else True)
      \<and> length (filter is_write_header (io s)) \<le> 1)"

section \<open>Properties of the recorder\<close>

lemmas fixture_defs = example_env_def example_format_def example_session_def vp8_frame_def
  h264_frame_def opus_frame_def pcmu_frame_def example_video_codec_def example_audio_codec_def
  video_session_def av_session_def ready_session_def example_encoded_def failing_env_def
  short_rtp_frame_def stuck_session_def

lemmas flag_defs = AVFMT_NOFILE_def AVFMT_GLOBALHEADER_def AVFMT_VARIABLE_FPS_def
  CODEC_FLAG_GLOBAL_HEADER_def

lemmas onFrame_defs = onFrame_def onFrame_video_def onFrame_audio_def pushAudio_def
  addVideoStream_def addAudioStream_def avformat_new_stream_def pushFrame_def codec_defaults_def

subsection \<open>Ingestion\<close>

lemma new_example_session:
  "MediaFileOut_new ''room.mkv'' 0 (Some example_format) = Inr example_session"
  by (simp add: MediaFileOut_new_def AVStreamOut_initial_status_def example_session_def)

lemma vp8_on_example_session:
  "onFrame example_env vp8_frame example_session = Inr video_session"
  by (simp add: fixture_defs onFrame_defs flag_defs)

lemma opus_on_video_session:
  "onFrame example_env opus_frame video_session = Inr av_session"
  by (simp add: fixture_defs onFrame_defs flag_defs)

text \<open>
  C1. When a video stream exists and a video frame maps to another codec than the
  stream's, or an audio stream exists and an audio frame maps to another codec than the
  stream's, \<^verbatim>\<open>onFrame\<close> returns the state it was given with the status set to the error
  state and nothing else changed: the frame is on no queue, and both stream descriptors
  (codec id, geometry, audio parameters) are what they were.
\<close>

theorem codec_mismatch_is_fatal:
  "(m_videoStream s = Some vs
      \<and> (format frame = FRAME_FORMAT_VP8 \<or> format frame = FRAME_FORMAT_H264)
      \<and> codec_id (codec vs) \<noteq> frameFormat2VideoCodecID (format frame)
     \<longrightarrow> onFrame env frame s = Inr (s\<lparr>m_status := Context_ERROR\<rparr>))
   \<and> (m_audioStream s = Some as
      \<and> (format frame = FRAME_FORMAT_PCMU \<or> format frame = FRAME_FORMAT_OPUS)
      \<and> codec_id (codec as) \<noteq> frameFormat2AudioCodecID (format frame)
     \<longrightarrow> onFrame env frame s = Inr (s\<lparr>m_status := Context_ERROR\<rparr>))"
  by (auto simp: onFrame_def onFrame_video_def onFrame_audio_def)

theorem codec_mismatch_is_fatal_witness:
  "m_videoStream av_session = Some \<lparr>index = 0, codec = example_video_codec\<rparr>
   \<and> codec_id example_video_codec \<noteq> frameFormat2VideoCodecID (format h264_frame)
   \<and> onFrame example_env h264_frame av_session = Inr (av_session\<lparr>m_status := Context_ERROR\<rparr>)
   \<and> m_audioStream av_session = Some \<lparr>index = 1, codec = example_audio_codec\<rparr>
   \<and> codec_id example_audio_codec \<noteq> frameFormat2AudioCodecID (format pcmu_frame)
   \<and> onFrame example_env pcmu_frame av_session = Inr (av_session\<lparr>m_status := Context_ERROR\<rparr>)"
  using codec_mismatch_is_fatal [of av_session "\<lparr>index = 0, codec = example_video_codec\<rparr>"
          h264_frame example_env "\<lparr>index = 1, codec = example_audio_codec\<rparr>"]
        codec_mismatch_is_fatal [of av_session "\<lparr>index = 0, codec = example_video_codec\<rparr>"
          pcmu_frame example_env "\<lparr>index = 1, codec = example_audio_codec\<rparr>"]
  by (simp add: fixture_defs)

lemma addAudioStream_queue:
  "addAudioStream env cid n r s = Inr (ok, s1) \<Longrightarrow> m_audioQueue s1 = m_audioQueue s"
  by (auto simp: addAudioStream_def avformat_new_stream_def Let_def split: option.splits if_splits)

lemma addAudioStream_total:
  "m_context s \<noteq> None \<Longrightarrow> \<exists>ok s1. addAudioStream env cid n r s = Inr (ok, s1)"
  by (auto simp: addAudioStream_def avformat_new_stream_def Let_def split: option.splits if_splits)

lemma pushAudio_result:
  "pushAudio env frame s =
     (if audio_isRtpPacket frame \<and> frame_length frame < getHeaderLength env (payload frame)
      then Inl AssertionFailed
      else Inr (s\<lparr>m_audioQueue := m_audioQueue s @
        [if audio_isRtpPacket frame
         then \<lparr>m_payloadData = take (frame_length frame - getHeaderLength env (payload frame))
                                  (drop (getHeaderLength env (payload frame)) (payload frame)),
               m_payloadSize = frame_length frame - getHeaderLength env (payload frame),
               m_timeStamp = now env\<rparr>
         else \<lparr>m_payloadData = take (frame_length frame) (payload frame),
               m_payloadSize = frame_length frame,
               m_timeStamp = now env\<rparr>]\<rparr>))"
  by (simp add: pushAudio_def pushFrame_def Let_def)

lemma onFrame_audio_reaches_push:
  assumes "m_status s \<noteq> Context_ERROR"
    and "format frame = FRAME_FORMAT_PCMU \<or> format frame = FRAME_FORMAT_OPUS"
    and "m_context s \<noteq> None"
    and "\<forall>as. m_audioStream s = Some as \<longrightarrow> codec_id (codec as) = frameFormat2AudioCodecID (format frame)"
  shows "\<exists>s0. m_audioQueue s0 = m_audioQueue s \<and> onFrame env frame s = pushAudio env frame s0"
proof (cases "m_videoStream s \<noteq> None \<and> m_audioStream s = None")
  case True
  from assms(3) obtain ok s1
    where a: "addAudioStream env (frameFormat2AudioCodecID (format frame))
                (audio_channels frame) (audio_sampleRate frame) s = Inr (ok, s1)"
    using addAudioStream_total by blast
  have q: "m_audioQueue s1 = m_audioQueue s"
    using a by (rule addAudioStream_queue)
  have "onFrame env frame s =
          pushAudio env frame (if ok then s1\<lparr>m_audioFrameFormat := format frame\<rparr> else s1)"
    using assms(1,2) True a by (auto simp: onFrame_def onFrame_audio_def)
  moreover have "m_audioQueue (if ok then s1\<lparr>m_audioFrameFormat := format frame\<rparr> else s1)
                   = m_audioQueue s"
    using q by simp
  ultimately show ?thesis by blast
next
  case False
  have "onFrame env frame s = pushAudio env frame s"
    using assms(1,2,4) False by (auto simp: onFrame_def onFrame_audio_def split: option.splits)
  then show ?thesis by blast
qed

text \<open>
  C5. Take an audio frame that \<^verbatim>\<open>onFrame\<close> does not discard: the session is open and not
  in the error state, and an existing audio stream has the frame's codec. Let \<open>L\<close> be the
  frame's length and \<open>H\<close> the RTP header length computed from its payload. If the frame
  is flagged as an RTP packet and \<open>L < H\<close>, the assertion fails. If it is flagged and
  \<open>H \<le> L\<close>, the frame pushed onto the audio queue has size \<open>L - H\<close> and holds the
  \<open>L - H\<close> bytes from offset \<open>H\<close> of the payload. If it is not flagged, the \<open>L\<close>
  bytes of the payload are pushed as they are.
\<close>

theorem rtp_header_is_stripped:
  assumes "m_status s \<noteq> Context_ERROR"
    and "format frame = FRAME_FORMAT_PCMU \<or> format frame = FRAME_FORMAT_OPUS"
    and "m_context s \<noteq> None"
    and "\<forall>as. m_audioStream s = Some as \<longrightarrow> codec_id (codec as) = frameFormat2AudioCodecID (format frame)"
  shows "(audio_isRtpPacket frame \<and> frame_length frame < getHeaderLength env (payload frame)
            \<longrightarrow> onFrame env frame s = Inl AssertionFailed)
       \<and> (audio_isRtpPacket frame \<and> getHeaderLength env (payload frame) \<le> frame_length frame
            \<longrightarrow> (\<exists>s1. onFrame env frame s = Inr s1 \<and> m_audioQueue s1 = m_audioQueue s @
                   [\<lparr>m_payloadData = take (frame_length frame - getHeaderLength env (payload frame))
                                        (drop (getHeaderLength env (payload frame)) (payload frame)),
                     m_payloadSize = frame_length frame - getHeaderLength env (payload frame),
                     m_timeStamp = now env\<rparr>]))
       \<and> (\<not> audio_isRtpPacket frame
            \<longrightarrow> (\<exists>s1. onFrame env frame s = Inr s1 \<and> m_audioQueue s1 = m_audioQueue s @
                   [\<lparr>m_payloadData = take (frame_length frame) (payload frame),
                     m_payloadSize = frame_length frame,
                     m_timeStamp = now env\<rparr>]))"
proof -
  from onFrame_audio_reaches_push [OF assms] obtain s0
    where q: "m_audioQueue s0 = m_audioQueue s"
      and r: "onFrame env frame s = pushAudio env frame s0"
    by blast
  show ?thesis
    unfolding r pushAudio_result using q by auto
qed

theorem rtp_header_is_stripped_witness:
  "m_status video_session \<noteq> Context_ERROR
   \<and> format opus_frame = FRAME_FORMAT_OPUS
   \<and> m_context video_session \<noteq> None
   \<and> m_audioStream video_session = None
   \<and> audio_isRtpPacket opus_frame
   \<and> getHeaderLength example_env (payload opus_frame) = 12
   \<and> frame_length opus_frame = 15
   \<and> onFrame example_env opus_frame video_session = Inr av_session
   \<and> m_audioQueue av_session = m_audioQueue video_session @
        [\<lparr>m_payloadData = [21, 22, 23], m_payloadSize = 3, m_timeStamp = 0\<rparr>]
   \<and> \<not> audio_isRtpPacket pcmu_frame
   \<and> onFrame example_env pcmu_frame video_session =
        Inr (video_session
          \<lparr>m_audioStream := Some \<lparr>index = 1, codec = example_audio_codec
              \<lparr>codec_id := AV_CODEC_ID_PCM_MULAW, channels := 1, channel_layout := 4,
               sample_rate := 8000, sample_fmt := AV_SAMPLE_FMT_S16\<rparr>\<rparr>,
           m_context := Some \<lparr>filename = ''room.mkv'',
                          oformat = \<lparr>flags = 0x0440, video_codec = AV_CODEC_ID_VP8\<rparr>,
                          nb_streams = 2, pb_open = False\<rparr>,
           m_audioFrameFormat := FRAME_FORMAT_PCMU,
           m_audioQueue := [\<lparr>m_payloadData = [9, 8, 7], m_payloadSize = 3, m_timeStamp = 0\<rparr>]\<rparr>)"
  using rtp_header_is_stripped [of video_session opus_frame example_env]
        rtp_header_is_stripped [of video_session pcmu_frame example_env]
  by (simp add: fixture_defs onFrame_defs flag_defs)

subsection \<open>The terminal error state\<close>

lemma close_status: "m_status (close s) = m_status s"
  by (simp add: close_def Let_def split: option.splits)

lemma onTimeout_error:
  "m_status s = Context_ERROR \<Longrightarrow>
   onTimeout env s = Inr (s\<lparr>io := io s @
     [NotifyAsyncEvent ''RecordingStream'' ''context initialization failed'']\<rparr>)"
  by (simp add: onTimeout_def)

lemma step_error:
  "m_status s = Context_ERROR \<Longrightarrow> step c s = Inr s1 \<Longrightarrow> m_status s1 = Context_ERROR"
  by (cases c) (auto simp: onFrame_def onTimeout_error close_status)

lemma run_error:
  "m_status s = Context_ERROR \<Longrightarrow> run cs s = Inr s1 \<Longrightarrow> m_status s1 = Context_ERROR"
proof (induction cs arbitrary: s)
  case Nil
  then show ?case by simp
next
  case (Cons c cs)
  then show ?case by (auto split: sum.splits dest: step_error)
qed

text \<open>
  C7. In the terminal error state \<^verbatim>\<open>onFrame\<close> returns at once, whatever the format of the
  frame: the result is the state it was given, so nothing is queued, no stream is created
  and the status is unchanged.
\<close>

theorem onFrame_in_error_is_noop:
  "m_status s = Context_ERROR \<Longrightarrow> onFrame env frame s = Inr s"
  by (simp add: onFrame_def)

theorem onFrame_in_error_is_noop_witness:
  "m_status (av_session\<lparr>m_status := Context_ERROR\<rparr>) = Context_ERROR
   \<and> onFrame example_env vp8_frame (av_session\<lparr>m_status := Context_ERROR\<rparr>)
       = Inr (av_session\<lparr>m_status := Context_ERROR\<rparr>)"
  using onFrame_in_error_is_noop [of "av_session\<lparr>m_status := Context_ERROR\<rparr>" example_env vp8_frame]
  by simp

text \<open>
  C8. A tick that starts in the terminal error state appends exactly one notification to
  the log and changes nothing else: no packet is written, both queues keep their frames,
  and the status is still the error state. No later call leaves the error state.
\<close>

theorem onTimeout_in_error_only_notifies:
  assumes "m_status s = Context_ERROR"
  shows "onTimeout env s = Inr (s\<lparr>io := io s @
           [NotifyAsyncEvent ''RecordingStream'' ''context initialization failed'']\<rparr>)
       \<and> (\<forall>s1. onTimeout env s = Inr s1 \<longrightarrow>
             m_status s1 = Context_ERROR \<and> m_videoQueue s1 = m_videoQueue s
             \<and> m_audioQueue s1 = m_audioQueue s)
       \<and> (\<forall>cs s1. run cs s = Inr s1 \<longrightarrow> m_status s1 = Context_ERROR)"
proof (intro conjI allI impI)
  show "onTimeout env s = Inr (s\<lparr>io := io s @
          [NotifyAsyncEvent ''RecordingStream'' ''context initialization failed'']\<rparr>)"
    using assms by (rule onTimeout_error)
next
  fix s1 assume "onTimeout env s = Inr s1"
  then have "s1 = s\<lparr>io := io s @
      [NotifyAsyncEvent ''RecordingStream'' ''context initialization failed'']\<rparr>"
    using onTimeout_error [OF assms, of env] by simp
  then show "m_status s1 = Context_ERROR" "m_videoQueue s1 = m_videoQueue s"
    "m_audioQueue s1 = m_audioQueue s"
    using assms by simp_all
next
  fix cs s1 assume "run cs s = Inr s1"
  with assms show "m_status s1 = Context_ERROR" by (rule run_error)
qed

theorem onTimeout_in_error_only_notifies_witness:
  "m_status (av_session\<lparr>m_status := Context_ERROR\<rparr>) = Context_ERROR
   \<and> onTimeout example_env (av_session\<lparr>m_status := Context_ERROR\<rparr>)
       = Inr (av_session\<lparr>m_status := Context_ERROR,
                io := [NotifyAsyncEvent ''RecordingStream'' ''context initialization failed'']\<rparr>)
   \<and> length (m_audioQueue (av_session\<lparr>m_status := Context_ERROR\<rparr>)) = 1"
  using onTimeout_in_error_only_notifies [of "av_session\<lparr>m_status := Context_ERROR\<rparr>" example_env]
  by (simp add: fixture_defs)

subsection \<open>The drain loops and the tick\<close>

lemma drainAudio_Inr:
  "drainAudio s = Inr s1 \<Longrightarrow>
   s1 = s\<lparr>m_audioQueue := [],
          io := io s @ map (\<lambda>e. AvWriteFrame (audioPacket e)) (m_audioQueue s)\<rparr>"
proof (induction "m_audioQueue s" arbitrary: s)
  case Nil
  then show ?case by (subst (asm) drainAudio.simps) simp
next
  case (Cons e q)
  let ?s' = "s\<lparr>m_audioQueue := q, io := io s @ [AvWriteFrame (audioPacket e)]\<rparr>"
  from Cons.hyps(2) [symmetric] Cons.prems have d: "drainAudio ?s' = Inr s1"
    by (subst (asm) drainAudio.simps)
       (auto simp: writeAudioFrame_def split: option.splits)
  have "q = m_audioQueue ?s'" by simp
  from Cons.hyps(1) [OF this d] Cons.hyps(2) [symmetric] show ?case by simp
qed

lemma drainAudio_total:
  "m_audioStream s \<noteq> None \<Longrightarrow> m_context s \<noteq> None \<Longrightarrow> \<exists>s1. drainAudio s = Inr s1"
proof (induction "m_audioQueue s" arbitrary: s)
  case Nil
  then show ?case by (subst drainAudio.simps) simp
next
  case (Cons e q)
  let ?s' = "s\<lparr>m_audioQueue := q, io := io s @ [AvWriteFrame (audioPacket e)]\<rparr>"
  have "q = m_audioQueue ?s'" by simp
  from Cons.hyps(1) [OF this] Cons.prems obtain s1 where "drainAudio ?s' = Inr s1" by auto
  with Cons.hyps(2) [symmetric] Cons.prems show ?case
    by (subst drainAudio.simps) (auto simp: writeAudioFrame_def)
qed

lemma drainVideo_Inr:
  "drainVideo s = Inr s1 \<Longrightarrow>
   s1 = s\<lparr>m_videoQueue := [],
          io := io s @ map (\<lambda>e. AvWriteFrame (videoPacket e)) (m_videoQueue s)\<rparr>"
proof (induction "m_videoQueue s" arbitrary: s)
  case Nil
  then show ?case by (subst (asm) drainVideo.simps) simp
next
  case (Cons e q)
  let ?s' = "s\<lparr>m_videoQueue := q, io := io s @ [AvWriteFrame (videoPacket e)]\<rparr>"
  from Cons.hyps(2) [symmetric] Cons.prems have d: "drainVideo ?s' = Inr s1"
    by (subst (asm) drainVideo.simps)
       (auto simp: writeVideoFrame_def split: option.splits)
  have "q = m_videoQueue ?s'" by simp
  from Cons.hyps(1) [OF this d] Cons.hyps(2) [symmetric] show ?case by simp
qed

lemma drainVideo_total:
  "m_videoStream s \<noteq> None \<Longrightarrow> m_context s \<noteq> None \<Longrightarrow> \<exists>s1. drainVideo s = Inr s1"
proof (induction "m_videoQueue s" arbitrary: s)
  case Nil
  then show ?case by (subst drainVideo.simps) simp
next
  case (Cons e q)
  let ?s' = "s\<lparr>m_videoQueue := q, io := io s @ [AvWriteFrame (videoPacket e)]\<rparr>"
  have "q = m_videoQueue ?s'" by simp
  from Cons.hyps(1) [OF this] Cons.prems obtain s1 where "drainVideo ?s' = Inr s1" by auto
  with Cons.hyps(2) [symmetric] Cons.prems show ?case
    by (subst drainVideo.simps) (auto simp: writeVideoFrame_def)
qed

lemma drainQueues_Inr:
  assumes "drainQueues s = Inr s1"
  shows "s1 = s\<lparr>m_audioQueue := [], m_videoQueue := [],
                 io := io s @ map (\<lambda>e. AvWriteFrame (audioPacket e)) (m_audioQueue s)
                            @ map (\<lambda>e. AvWriteFrame (videoPacket e)) (m_videoQueue s)\<rparr>"
proof -
  from assms obtain s0 where a: "drainAudio s = Inr s0" and v: "drainVideo s0 = Inr s1"
    by (auto simp: drainQueues_def split: sum.splits)
  from drainAudio_Inr [OF a] drainVideo_Inr [OF v] show ?thesis by simp
qed

lemma drainQueues_total:
  assumes "m_audioStream s \<noteq> None" "m_videoStream s \<noteq> None" "m_context s \<noteq> None"
  shows "\<exists>s1. drainQueues s = Inr s1"
proof -
  from drainAudio_total [OF assms(1,3)] obtain s0 where a: "drainAudio s = Inr s0" by blast
  from drainAudio_Inr [OF a] assms have "m_videoStream s0 \<noteq> None" "m_context s0 \<noteq> None"
    by simp_all
  from drainVideo_total [OF this] a show ?thesis by (simp add: drainQueues_def)
qed

lemma onTimeout_Inr:
  assumes "onTimeout env s = Inr s1"
  shows "m_videoStream s1 = m_videoStream s"
    and "m_audioStream s1 = m_audioStream s"
    and "map_option nb_streams (m_context s1) = map_option nb_streams (m_context s)"
    and "io s1 = io s @ new_events s s1"
    and "m_status s \<noteq> Context_EMPTY \<Longrightarrow> m_status s1 = m_status s"
    and "m_status s \<noteq> Context_EMPTY \<Longrightarrow> \<not> list_ex is_write_header (new_events s s1)"
    and "list_ex is_write_header (new_events s s1) \<Longrightarrow>
           m_videoStream s \<noteq> None \<and> m_audioStream s \<noteq> None \<and> m_status s1 \<noteq> Context_EMPTY
           \<and> length (filter is_write_header (new_events s s1)) = 1"
    and "AvformatWriteHeader True \<in> set (new_events s s1) \<Longrightarrow>
           m_status s = Context_EMPTY \<and> m_status s1 = Context_READY \<and> m_avTrailerNeeded s1"
proof -
  have filt: "\<And>q. filter is_write_header (map (\<lambda>e. AvWriteFrame (audioPacket e)) q) = []"
             "\<And>q. filter is_write_header (map (\<lambda>e. AvWriteFrame (videoPacket e)) q) = []"
    by (simp_all add: filter_empty_conv)
  have ex: "\<And>q. \<not> list_ex is_write_header (map (\<lambda>e. AvWriteFrame (audioPacket e)) q)"
           "\<And>q. \<not> list_ex is_write_header (map (\<lambda>e. AvWriteFrame (videoPacket e)) q)"
    by (simp_all add: list_ex_iff)
  have mem: "\<And>q b. AvformatWriteHeader b \<notin> set (map (\<lambda>e. AvWriteFrame (audioPacket e)) q)"
            "\<And>q b. AvformatWriteHeader b \<notin> set (map (\<lambda>e. AvWriteFrame (videoPacket e)) q)"
    by auto
  show "m_videoStream s1 = m_videoStream s"
    using assms
    by (auto simp: onTimeout_def Let_def split: Status.splits if_splits option.splits
          dest!: drainQueues_Inr)
  show "m_audioStream s1 = m_audioStream s"
    using assms
    by (auto simp: onTimeout_def Let_def split: Status.splits if_splits option.splits
          dest!: drainQueues_Inr)
  show "map_option nb_streams (m_context s1) = map_option nb_streams (m_context s)"
    using assms
    by (auto simp: onTimeout_def Let_def split: Status.splits if_splits option.splits
          dest!: drainQueues_Inr)
  show "io s1 = io s @ new_events s s1"
    using assms
    by (auto simp: onTimeout_def Let_def new_events_def split: Status.splits if_splits option.splits
          dest!: drainQueues_Inr)
  show "m_status s \<noteq> Context_EMPTY \<Longrightarrow> m_status s1 = m_status s"
    using assms
    by (auto simp: onTimeout_def Let_def split: Status.splits if_splits option.splits
          dest!: drainQueues_Inr)
  show "m_status s \<noteq> Context_EMPTY \<Longrightarrow> \<not> list_ex is_write_header (new_events s s1)"
    using assms ex
    by (auto simp: onTimeout_def Let_def new_events_def split: Status.splits if_splits option.splits
          dest!: drainQueues_Inr)
  show "list_ex is_write_header (new_events s s1) \<Longrightarrow>
           m_videoStream s \<noteq> None \<and> m_audioStream s \<noteq> None \<and> m_status s1 \<noteq> Context_EMPTY
           \<and> length (filter is_write_header (new_events s s1)) = 1"
    using assms ex filt
    by (auto simp: onTimeout_def Let_def new_events_def split: Status.splits if_splits option.splits
          dest!: drainQueues_Inr)
  show "AvformatWriteHeader True \<in> set (new_events s s1) \<Longrightarrow>
           m_status s = Context_EMPTY \<and> m_status s1 = Context_READY \<and> m_avTrailerNeeded s1"
    using assms mem
    by (auto simp: onTimeout_def Let_def new_events_def split: Status.splits if_splits option.splits
          dest!: drainQueues_Inr)
qed

subsection \<open>Invariants of a session\<close>

lemma streams_inv_iff:
  "streams_inv s \<longleftrightarrow>
     (m_videoStream s = None \<longrightarrow> m_audioStream s = None)
     \<and> (\<forall>vs. m_videoStream s = Some vs \<longrightarrow> index vs = 0)
     \<and> (\<forall>as. m_audioStream s = Some as \<longrightarrow> index as = 1)
     \<and> (\<forall>ctx. m_context s = Some ctx \<longrightarrow>
           nb_streams ctx = (if m_videoStream s = None then 0 else 1)
                          + (if m_audioStream s = None then 0 else 1))"
  by (auto simp: streams_inv_def split: option.splits)

lemma streams_inv_update [simp]:
  "streams_inv (s\<lparr>m_audioQueue := aq\<rparr>) = streams_inv s"
  "streams_inv (s\<lparr>m_videoQueue := vq\<rparr>) = streams_inv s"
  "streams_inv (s\<lparr>m_status := st\<rparr>) = streams_inv s"
  "streams_inv (s\<lparr>m_videoFrameFormat := ff\<rparr>) = streams_inv s"
  "streams_inv (s\<lparr>m_audioFrameFormat := ff\<rparr>) = streams_inv s"
  by (simp_all add: streams_inv_iff)

lemma pushAudio_Inr:
  "pushAudio env frame s = Inr s1 \<Longrightarrow> \<exists>q. s1 = s\<lparr>m_audioQueue := q\<rparr>"
  by (auto simp: pushAudio_def Let_def split: if_splits)

lemma addVideoStream_Inr:
  assumes "addVideoStream env cid w h s = Inr (ok, s1)"
  shows "io s1 = io s"
    and "m_status s1 = m_status s \<or> m_status s1 = Context_ERROR"
    and "streams_inv s \<Longrightarrow> m_videoStream s = None \<Longrightarrow> streams_inv s1"
proof -
  from assms obtain ctx where c: "m_context s = Some ctx"
    by (auto simp: addVideoStream_def split: option.splits)
  show "io s1 = io s"
    using assms c by (cases "new_stream_ok env")
      (auto simp: addVideoStream_def avformat_new_stream_def Let_def)
  show "m_status s1 = m_status s \<or> m_status s1 = Context_ERROR"
    using assms c by (cases "new_stream_ok env")
      (auto simp: addVideoStream_def avformat_new_stream_def Let_def)
  show "streams_inv s \<Longrightarrow> m_videoStream s = None \<Longrightarrow> streams_inv s1"
    using assms c by (cases "new_stream_ok env")
      (auto simp: addVideoStream_def avformat_new_stream_def Let_def streams_inv_iff)
qed

lemma addAudioStream_Inr:
  assumes "addAudioStream env cid n r s = Inr (ok, s1)"
  shows "io s1 = io s"
    and "m_status s1 = m_status s \<or> m_status s1 = Context_ERROR"
    and "streams_inv s \<Longrightarrow> m_videoStream s \<noteq> None \<Longrightarrow> m_audioStream s = None \<Longrightarrow> streams_inv s1"
proof -
  from assms obtain ctx where c: "m_context s = Some ctx"
    by (auto simp: addAudioStream_def split: option.splits)
  show "io s1 = io s"
    using assms c by (cases "new_stream_ok env")
      (auto simp: addAudioStream_def avformat_new_stream_def Let_def)
  show "m_status s1 = m_status s \<or> m_status s1 = Context_ERROR"
    using assms c by (cases "new_stream_ok env")
      (auto simp: addAudioStream_def avformat_new_stream_def Let_def)
  show "streams_inv s \<Longrightarrow> m_videoStream s \<noteq> None \<Longrightarrow> m_audioStream s = None \<Longrightarrow> streams_inv s1"
    using assms c by (cases "new_stream_ok env")
      (auto simp: addAudioStream_def avformat_new_stream_def Let_def streams_inv_iff)
qed

lemma onFrame_video_Inr:
  assumes "onFrame_video env frame s = Inr s1"
  shows "io s1 = io s"
    and "m_status s1 = m_status s \<or> m_status s1 = Context_ERROR"
    and "streams_inv s \<Longrightarrow> streams_inv s1"
proof -
  show "io s1 = io s"
    using assms
    by (auto simp: onFrame_video_def Let_def split: option.splits if_splits sum.splits prod.splits
          dest: addVideoStream_Inr(1))
  show "m_status s1 = m_status s \<or> m_status s1 = Context_ERROR"
    using assms
    by (auto simp: onFrame_video_def Let_def split: option.splits if_splits sum.splits prod.splits
          dest: addVideoStream_Inr(2))
  show "streams_inv s \<Longrightarrow> streams_inv s1"
    using assms
    by (auto simp: onFrame_video_def Let_def split: option.splits if_splits sum.splits prod.splits
          dest: addVideoStream_Inr(3))
qed

lemma onFrame_audio_Inr:
  assumes "onFrame_audio env frame s = Inr s1"
  shows "io s1 = io s"
    and "m_status s1 = m_status s \<or> m_status s1 = Context_ERROR"
    and "streams_inv s \<Longrightarrow> streams_inv s1"
proof -
  show "io s1 = io s"
    using assms
    by (auto simp: onFrame_audio_def split: option.splits if_splits sum.splits prod.splits
          dest!: pushAudio_Inr dest: addAudioStream_Inr(1))
  show "m_status s1 = m_status s \<or> m_status s1 = Context_ERROR"
    using assms
    by (auto simp: onFrame_audio_def split: option.splits if_splits sum.splits prod.splits
          dest!: pushAudio_Inr dest: addAudioStream_Inr(2))
  show "streams_inv s \<Longrightarrow> streams_inv s1"
    using assms
    by (auto simp: onFrame_audio_def split: option.splits if_splits sum.splits prod.splits
          dest!: pushAudio_Inr dest: addAudioStream_Inr(3))
qed

lemma onFrame_io:
  "onFrame env frame s = Inr s1 \<Longrightarrow>
   io s1 = io s \<and> (m_status s1 = m_status s \<or> m_status s1 = Context_ERROR)"
  by (auto simp: onFrame_def split: if_splits
        dest: onFrame_video_Inr(1,2) onFrame_audio_Inr(1,2))

lemma onFrame_streams_inv:
  "streams_inv s \<Longrightarrow> onFrame env frame s = Inr s1 \<Longrightarrow> streams_inv s1"
  by (auto simp: onFrame_def split: if_splits
        dest: onFrame_video_Inr(3) onFrame_audio_Inr(3))

lemma onTimeout_streams_inv:
  assumes "streams_inv s" and "onTimeout env s = Inr s1"
  shows "streams_inv s1"
proof -
  note t = onTimeout_Inr(1-3) [OF assms(2)]
  show ?thesis
  proof (cases "m_context s")
    case None
    with t(3) have "m_context s1 = None" by simp
    with assms(1) None t(1,2) show ?thesis
      by (auto simp: streams_inv_iff)
  next
    case (Some ctx)
    with t(3) obtain ctx1 where "m_context s1 = Some ctx1" "nb_streams ctx1 = nb_streams ctx"
      by (cases "m_context s1") auto
    with assms(1) Some t(1,2) show ?thesis
      by (auto simp: streams_inv_iff)
  qed
qed

lemma close_fields [simp]:
  "m_videoStream (close s) = m_videoStream s"
  "m_audioStream (close s) = m_audioStream s"
  "m_context (close s) = None"
  "m_status (close s) = m_status s"
  "m_videoQueue (close s) = m_videoQueue s"
  "m_audioQueue (close s) = m_audioQueue s"
  by (simp_all add: close_def Let_def split: option.splits)

lemma close_io:
  "io (close s) = io s @ [JobTimerStop]
     @ (if m_context s \<noteq> None \<and> m_avTrailerNeeded s then [AvWriteTrailer] else [])
     @ (case m_videoStream s of Some vs \<Rightarrow> [AvcodecClose (codec vs)] | None \<Rightarrow> [])
     @ (case m_audioStream s of Some as \<Rightarrow> [AvcodecClose (codec as)] | None \<Rightarrow> [])
     @ (case m_context s of
          Some ctx \<Rightarrow> (if flags (oformat ctx) AND AVFMT_NOFILE = 0 then [AvioClose] else [])
                       @ [AvformatFreeContext]
        | None \<Rightarrow> [])"
  by (simp add: close_def Let_def split: option.splits)

lemma close_no_header: "filter is_write_header (io (close s)) = filter is_write_header (io s)"
  by (simp add: close_io split: option.splits)

lemma close_streams_inv: "streams_inv s \<Longrightarrow> streams_inv (close s)"
  by (simp add: streams_inv_iff)

lemma step_streams_inv: "streams_inv s \<Longrightarrow> step c s = Inr s1 \<Longrightarrow> streams_inv s1"
  by (cases c) (auto intro: onFrame_streams_inv onTimeout_streams_inv close_streams_inv)

lemma run_streams_inv: "streams_inv s \<Longrightarrow> run cs s = Inr s1 \<Longrightarrow> streams_inv s1"
proof (induction cs arbitrary: s)
  case Nil
  then show ?case by simp
next
  case (Cons c cs)
  then show ?case by (auto split: sum.splits dest: step_streams_inv)
qed

lemma new_streams_inv: "MediaFileOut_new url si guess = Inr s \<Longrightarrow> streams_inv s"
  by (auto simp: MediaFileOut_new_def streams_inv_iff split: option.splits)

lemma header_inv_iff:
  "header_inv s \<longleftrightarrow>
     (m_status s = Context_EMPTY \<longrightarrow> filter is_write_header (io s) = [])
     \<and> length (filter is_write_header (io s)) \<le> 1"
  by (auto simp: header_inv_def list_ex_iff filter_empty_conv)

lemma onFrame_header_inv:
  assumes "header_inv s" and "onFrame env frame s = Inr s1"
  shows "header_inv s1"
  using assms(1) onFrame_io [OF assms(2)] by (auto simp: header_inv_iff)

lemma onTimeout_header_inv:
  assumes "header_inv s" and "onTimeout env s = Inr s1"
  shows "header_inv s1"
proof -
  note t = onTimeout_Inr [OF assms(2)]
  let ?new = "new_events s s1"
  have io: "io s1 = io s @ ?new" by (rule t(4))
  have f: "filter is_write_header (io s1)
             = filter is_write_header (io s) @ filter is_write_header ?new"
    by (subst io) simp
  show ?thesis
  proof (cases "list_ex is_write_header ?new")
    case True
    from t(7) [OF True] have e: "m_status s1 \<noteq> Context_EMPTY"
      and one: "length (filter is_write_header ?new) = 1" by simp_all
    from True t(6) have "m_status s = Context_EMPTY" by blast
    with assms(1) have "filter is_write_header (io s) = []"
      by (simp add: header_inv_iff)
    with e one f show ?thesis by (simp add: header_inv_iff)
  next
    case False
    then have none: "filter is_write_header ?new = []"
      by (simp add: list_ex_iff filter_empty_conv)
    have st: "m_status s1 = Context_EMPTY \<Longrightarrow> m_status s = Context_EMPTY"
      using t(5) by fastforce
    from assms(1) st none f show ?thesis by (auto simp: header_inv_iff)
  qed
qed

lemma close_header_inv: "header_inv s \<Longrightarrow> header_inv (close s)"
  by (simp add: header_inv_iff close_no_header)

lemma step_header_inv: "header_inv s \<Longrightarrow> step c s = Inr s1 \<Longrightarrow> header_inv s1"
  by (cases c) (auto intro: onFrame_header_inv onTimeout_header_inv close_header_inv)

lemma run_header_inv: "header_inv s \<Longrightarrow> run cs s = Inr s1 \<Longrightarrow> header_inv s1"
proof (induction cs arbitrary: s)
  case Nil
  then show ?case by simp
next
  case (Cons c cs)
  then show ?case by (auto split: sum.splits dest: step_header_inv)
qed

lemma new_header_inv: "MediaFileOut_new url si guess = Inr s \<Longrightarrow> header_inv s"
  by (auto simp: MediaFileOut_new_def header_inv_iff split: option.splits)

subsection \<open>Header, stream indices and teardown\<close>

lemma drainQueues_result:
  assumes "m_audioStream s \<noteq> None" "m_videoStream s \<noteq> None" "m_context s \<noteq> None"
  shows "drainQueues s = Inr (s\<lparr>m_audioQueue := [], m_videoQueue := [],
           io := io s @ map (\<lambda>e. AvWriteFrame (audioPacket e)) (m_audioQueue s)
                      @ map (\<lambda>e. AvWriteFrame (videoPacket e)) (m_videoQueue s)\<rparr>)"
proof -
  from drainQueues_total [OF assms] obtain s1 where r: "drainQueues s = Inr s1" by blast
  from drainQueues_Inr [OF r] r show ?thesis by simp
qed

lemma tick_on_av_session: "onTimeout example_env av_session = Inr ready_session"
proof -
  have "m_audioStream av_session \<noteq> None" "m_videoStream av_session \<noteq> None"
    "m_context av_session \<noteq> None"
    by (simp_all add: fixture_defs)
  then show ?thesis
    by (simp add: onTimeout_def drainQueues_result Let_def fixture_defs flag_defs
          audioPacket_def videoPacket_def)
qed

lemma tick_on_ready_session: "onTimeout example_env ready_session = Inr ready_session"
proof -
  have "m_audioStream ready_session \<noteq> None" "m_videoStream ready_session \<noteq> None"
    "m_context ready_session \<noteq> None"
    by (simp_all add: fixture_defs)
  then show ?thesis
    by (simp add: onTimeout_def drainQueues_result Let_def fixture_defs)
qed

lemma example_run:
  "run [OnFrame example_env vp8_frame, OnFrame example_env opus_frame,
        OnTimeout example_env, OnTimeout example_env] example_session = Inr ready_session"
  by (simp add: vp8_on_example_session opus_on_video_session tick_on_av_session
        tick_on_ready_session)

text \<open>
  C2. In the log of a session, however many ticks, frames and calls of \<^verbatim>\<open>close\<close> it has
  seen since its construction, the header write occurs at most once. A tick extends the
  log; if the events it adds hold a header write, the tick started in \<open>Empty\<close> with
  both streams present; and if they hold a successful header write, the tick started in
  \<open>Empty\<close> and ends in \<open>Ready\<close> with the trailer-needed flag set.
\<close>

theorem header_written_at_most_once:
  "(MediaFileOut_new url si guess = Inr s0 \<and> run cs s0 = Inr s
      \<longrightarrow> length (filter is_write_header (io s)) \<le> 1)
   \<and> (onTimeout env t = Inr t1 \<longrightarrow>
        io t1 = io t @ new_events t t1
        \<and> (list_ex is_write_header (new_events t t1) \<longrightarrow>
              m_status t = Context_EMPTY \<and> m_videoStream t \<noteq> None \<and> m_audioStream t \<noteq> None)
        \<and> (AvformatWriteHeader True \<in> set (new_events t t1) \<longrightarrow>
              m_status t = Context_EMPTY \<and> m_status t1 = Context_READY \<and> m_avTrailerNeeded t1))"
proof (intro conjI impI)
  assume "MediaFileOut_new url si guess = Inr s0 \<and> run cs s0 = Inr s"
  then have "header_inv s0" and "run cs s0 = Inr s"
    by (auto intro: new_header_inv)
  then have "header_inv s" by (rule run_header_inv)
  then show "length (filter is_write_header (io s)) \<le> 1"
    by (simp add: header_inv_iff)
next
  assume r: "onTimeout env t = Inr t1"
  show "io t1 = io t @ new_events t t1"
    by (rule onTimeout_Inr(4) [OF r])
next
  assume r: "onTimeout env t = Inr t1" and h: "list_ex is_write_header (new_events t t1)"
  from onTimeout_Inr(6) [OF r] h show "m_status t = Context_EMPTY" by blast
  from onTimeout_Inr(7) [OF r h] show "m_videoStream t \<noteq> None" "m_audioStream t \<noteq> None"
    by simp_all
next
  assume r: "onTimeout env t = Inr t1" and h: "AvformatWriteHeader True \<in> set (new_events t t1)"
  from onTimeout_Inr(8) [OF r h]
  show "m_status t = Context_EMPTY" "m_status t1 = Context_READY" "m_avTrailerNeeded t1"
    by simp_all
qed

theorem header_written_at_most_once_witness:
  "MediaFileOut_new ''room.mkv'' 0 (Some example_format) = Inr example_session
   \<and> run [OnFrame example_env vp8_frame, OnFrame example_env opus_frame,
           OnTimeout example_env, OnTimeout example_env] example_session = Inr ready_session
   \<and> length (filter is_write_header (io ready_session)) = 1
   \<and> onTimeout example_env av_session = Inr ready_session
   \<and> new_events av_session ready_session =
        [AvioOpen ''room.mkv'' True, AvDumpFormat, AvformatWriteHeader True,
         AvWriteFrame \<lparr>data = [21, 22, 23], size_p = 3, stream_index = 1\<rparr>,
         AvWriteFrame \<lparr>data = [1, 2, 3], size_p = 3, stream_index = 0\<rparr>]
   \<and> m_status av_session = Context_EMPTY
   \<and> m_videoStream av_session \<noteq> None \<and> m_audioStream av_session \<noteq> None
   \<and> m_status ready_session = Context_READY \<and> m_avTrailerNeeded ready_session"
  using header_written_at_most_once [of "''room.mkv''" 0 "Some example_format" example_session
          "[OnFrame example_env vp8_frame, OnFrame example_env opus_frame,
            OnTimeout example_env, OnTimeout example_env]" ready_session
          example_env av_session ready_session]
        new_example_session example_run tick_on_av_session
  by (simp add: new_events_def fixture_defs)








text \<open>
  C4 at a concrete session: one that has received a video and an audio frame and has
  written its header. The first \<^verbatim>\<open>close\<close> stops the timer, writes the trailer, closes
  both codec contexts, closes the file and frees the context. The second \<^verbatim>\<open>close\<close>
  writes no second trailer and frees nothing of the context, but it stops the timer
  again and, through the stream pointers that the first call left in place, closes both
  codec contexts a second time.
\<close>

theorem second_close_closes_codecs_again:
  "io (close ready_session) = io ready_session @
     [JobTimerStop, AvWriteTrailer, AvcodecClose example_video_codec,
      AvcodecClose example_audio_codec, AvioClose, AvformatFreeContext]
   \<and> io (close (close ready_session)) = io (close ready_session) @
     [JobTimerStop, AvcodecClose example_video_codec, AvcodecClose example_audio_codec]
   \<and> close (close ready_session) \<noteq> close ready_session"
proof -
  have a: "io (close ready_session) = io ready_session @
     [JobTimerStop, AvWriteTrailer, AvcodecClose example_video_codec,
      AvcodecClose example_audio_codec, AvioClose, AvformatFreeContext]"
    by (simp add: close_io ready_session_def av_session_def video_session_def
          example_session_def flag_defs)
  have b: "io (close (close ready_session)) = io (close ready_session) @
     [JobTimerStop, AvcodecClose example_video_codec, AvcodecClose example_audio_codec]"
    by (simp add: close_io [of "close ready_session"])
       (simp add: ready_session_def av_session_def video_session_def)
  have "io (close (close ready_session)) \<noteq> io (close ready_session)"
    unfolding b by simp
  then have "close (close ready_session) \<noteq> close ready_session" by auto
  with a b show ?thesis by simp
qed

subsection \<open>Audio before video\<close>

lemma addVideoStream_audioQueue:
  "addVideoStream env cid w h s = Inr (ok, s1) \<Longrightarrow> m_audioQueue s1 = m_audioQueue s"
  by (auto simp: addVideoStream_def avformat_new_stream_def Let_def split: option.splits if_splits)

lemma onFrame_keeps_audio:
  assumes "onFrame env frame s = Inr s1"
  shows "set (m_audioQueue s) \<subseteq> set (m_audioQueue s1)"
proof -
  have v: "onFrame_video env frame s = Inr s1 \<Longrightarrow> m_audioQueue s1 = m_audioQueue s"
    by (auto simp: onFrame_video_def Let_def split: option.splits if_splits sum.splits prod.splits
          dest: addVideoStream_audioQueue)
  have p: "\<And>s0. pushAudio env frame s0 = Inr s1 \<Longrightarrow> set (m_audioQueue s0) \<subseteq> set (m_audioQueue s1)"
    by (auto simp: pushAudio_result split: if_splits)
  have a: "onFrame_audio env frame s = Inr s1 \<Longrightarrow> set (m_audioQueue s) \<subseteq> set (m_audioQueue s1)"
    by (auto simp: onFrame_audio_def split: option.splits if_splits sum.splits prod.splits
          dest!: p addAudioStream_queue)
  from assms v a show ?thesis
    by (auto simp: onFrame_def split: if_splits)
qed

lemma onTimeout_keeps_or_writes_audio:
  assumes "onTimeout env s = Inr s1" and "e \<in> set (m_audioQueue s)"
  shows "e \<in> set (m_audioQueue s1) \<or> AvWriteFrame (audioPacket e) \<in> set (new_events s s1)"
  using assms
  by (auto simp: onTimeout_def Let_def new_events_def split: Status.splits if_splits option.splits
        dest!: drainQueues_Inr)

lemma step_keeps_or_writes_audio:
  assumes "step c s = Inr s1" and "e \<in> set (m_audioQueue s)"
  shows "e \<in> set (m_audioQueue s1) \<or> AvWriteFrame (audioPacket e) \<in> set (new_events s s1)"
proof (cases c)
  case (OnFrame env frame)
  with assms onFrame_keeps_audio [of env frame s s1] show ?thesis by auto
next
  case (OnTimeout env)
  with assms onTimeout_keeps_or_writes_audio [of env s s1 e] show ?thesis by auto
next
  case Close
  with assms show ?thesis by auto
qed

lemma onTimeout_drains:
  assumes "m_audioStream s \<noteq> None" and "m_videoStream s \<noteq> None" and "m_context s = Some ctx"
    and "m_status s = Context_READY
         \<or> (m_status s = Context_EMPTY \<and> write_header_ok env
            \<and> (avio_open_ok env \<or> flags (oformat ctx) AND AVFMT_NOFILE \<noteq> 0))"
  shows "\<exists>s1. onTimeout env s = Inr s1 \<and> m_status s1 = Context_READY
           \<and> m_audioQueue s1 = [] \<and> m_videoQueue s1 = []
           \<and> (\<forall>e \<in> set (m_audioQueue s). AvWriteFrame (audioPacket e) \<in> set (new_events s s1))
           \<and> (\<forall>e \<in> set (m_videoQueue s). AvWriteFrame (videoPacket e) \<in> set (new_events s s1))"
proof (cases "m_status s = Context_READY")
  case True
  with assms(1-3) show ?thesis
    by (auto simp: onTimeout_def drainQueues_result new_events_def)
next
  case False
  with assms(4) have e: "m_status s = Context_EMPTY" and h: "write_header_ok env"
    and o: "avio_open_ok env \<or> flags (oformat ctx) AND AVFMT_NOFILE \<noteq> 0"
    by auto
  show ?thesis
  proof (cases "flags (oformat ctx) AND AVFMT_NOFILE = 0")
    case True
    with o have "avio_open_ok env" by simp
    with True e h assms(1-3) show ?thesis
      by (auto simp: onTimeout_def drainQueues_result new_events_def Let_def)
  next
    case False
    with e h assms(1-3) show ?thesis
      by (auto simp: onTimeout_def drainQueues_result new_events_def Let_def)
  qed
qed

text \<open>
  C6. While no video stream exists, \<^verbatim>\<open>onFrame\<close> on a PCMU or OPUS frame either returns
  with the audio stream as it was and still no video stream, or stops at the assertion
  on the RTP header length; it never creates an audio stream. Hence, in every session
  reached from the constructor by calls of \<^verbatim>\<open>onFrame\<close>, \<^verbatim>\<open>onTimeout\<close> and \<^verbatim>\<open>close\<close>, an
  audio stream exists only if a video stream exists.
\<close>

theorem video_stream_comes_first:
  "(m_videoStream s = None
      \<and> (format frame = FRAME_FORMAT_PCMU \<or> format frame = FRAME_FORMAT_OPUS) \<longrightarrow>
      (case onFrame env frame s of
         Inr s1 \<Rightarrow> m_audioStream s1 = m_audioStream s \<and> m_videoStream s1 = None
       | Inl f \<Rightarrow> f = AssertionFailed \<and> audio_isRtpPacket frame
                  \<and> frame_length frame < getHeaderLength env (payload frame)))
   \<and> (MediaFileOut_new url si guess = Inr s0 \<and> run cs s0 = Inr t \<and> m_audioStream t \<noteq> None
        \<longrightarrow> m_videoStream t \<noteq> None)"
proof (intro conjI impI)
  assume "m_videoStream s = None
      \<and> (format frame = FRAME_FORMAT_PCMU \<or> format frame = FRAME_FORMAT_OPUS)"
  then show "case onFrame env frame s of
         Inr s1 \<Rightarrow> m_audioStream s1 = m_audioStream s \<and> m_videoStream s1 = None
       | Inl f \<Rightarrow> f = AssertionFailed \<and> audio_isRtpPacket frame
                  \<and> frame_length frame < getHeaderLength env (payload frame)"
    by (auto simp: onFrame_def onFrame_audio_def pushAudio_result split: option.splits)
next
  assume a: "MediaFileOut_new url si guess = Inr s0 \<and> run cs s0 = Inr t \<and> m_audioStream t \<noteq> None"
  then have "streams_inv s0" by (auto intro: new_streams_inv)
  with a have "streams_inv t" by (auto intro: run_streams_inv)
  with a show "m_videoStream t \<noteq> None" by (auto simp: streams_inv_iff)
qed

theorem video_stream_comes_first_witness:
  "m_videoStream example_session = None
   \<and> format opus_frame = FRAME_FORMAT_OPUS
   \<and> onFrame example_env opus_frame example_session =
        Inr (example_session\<lparr>m_audioQueue :=
          [\<lparr>m_payloadData = [21, 22, 23], m_payloadSize = 3, m_timeStamp = 0\<rparr>]\<rparr>)
   \<and> m_audioStream example_session = None
   \<and> MediaFileOut_new ''room.mkv'' 0 (Some example_format) = Inr example_session
   \<and> run [OnFrame example_env vp8_frame, OnFrame example_env opus_frame,
           OnTimeout example_env, OnTimeout example_env] example_session = Inr ready_session
   \<and> m_audioStream ready_session \<noteq> None
   \<and> m_videoStream ready_session \<noteq> None"
  using video_stream_comes_first [of example_session opus_frame example_env
          "''room.mkv''" 0 "Some example_format" example_session
          "[OnFrame example_env vp8_frame, OnFrame example_env opus_frame,
            OnTimeout example_env, OnTimeout example_env]" ready_session]
        new_example_session example_run
  by (simp add: fixture_defs onFrame_def onFrame_audio_def pushAudio_result)

lemma early_run_stuck:
  "run [OnFrame example_env opus_frame, OnFrame example_env vp8_frame,
        OnFrame example_env opus_frame, OnTimeout failing_env, OnTimeout example_env]
     example_session = Inr stuck_session"
proof -
  let ?e = "\<lparr>m_payloadData = [21, 22, 23], m_payloadSize = 3, m_timeStamp = 0\<rparr>"
  have 1: "onFrame example_env opus_frame example_session =
             Inr (example_session\<lparr>m_audioQueue := [?e]\<rparr>)"
    by (simp add: fixture_defs onFrame_defs flag_defs)
  have 2: "onFrame example_env vp8_frame (example_session\<lparr>m_audioQueue := [?e]\<rparr>) =
             Inr (video_session\<lparr>m_audioQueue := [?e]\<rparr>)"
    by (simp add: fixture_defs onFrame_defs flag_defs)
  have 3: "onFrame example_env opus_frame (video_session\<lparr>m_audioQueue := [?e]\<rparr>) =
             Inr (av_session\<lparr>m_audioQueue := [?e, ?e]\<rparr>)"
    by (simp add: fixture_defs onFrame_defs flag_defs)
  have 4: "onTimeout failing_env (av_session\<lparr>m_audioQueue := [?e, ?e]\<rparr>) =
             Inr (av_session\<lparr>m_status := Context_ERROR, m_audioQueue := [?e, ?e],
                    io := [AvioOpen ''room.mkv'' False,
                           NotifyAsyncEvent ''RecordingStream''
                             ''output file does not exist or cannot be opened for write'']\<rparr>)"
    by (simp add: onTimeout_def fixture_defs flag_defs)
  have 5: "onTimeout example_env
             (av_session\<lparr>m_status := Context_ERROR, m_audioQueue := [?e, ?e],
                    io := [AvioOpen ''room.mkv'' False,
                           NotifyAsyncEvent ''RecordingStream''
                             ''output file does not exist or cannot be opened for write'']\<rparr>)
           = Inr stuck_session"
    by (simp add: onTimeout_def fixture_defs)
  show ?thesis by (simp add: 1 2 3 4 5)
qed

text \<open>
  C10, as the code has it. Take a session reached from the constructor that is not in the
  error state and has no video stream, and a PCMU or OPUS frame. The session has no audio
  stream. If the frame is flagged as an RTP packet and is shorter than its RTP header,
  \<^verbatim>\<open>onFrame\<close> stops at the assertion. Otherwise it creates no stream and changes nothing
  but the audio queue, to which it appends the frame \<open>e\<close> (stripped of the RTP header if
  flagged). From then on no call drops \<open>e\<close>: after any call that returns, \<open>e\<close> is
  still queued or the call has written it. A tick that finds \<open>e\<close> queued, both streams
  and the context present, and the status \<open>Ready\<close>, or \<open>Empty\<close> with the sink
  opening and the header write succeeding, writes \<open>e\<close> as an audio packet. A tick that
  starts in the error state writes no packet and leaves the audio queue as it is.
\<close>

theorem early_audio_is_buffered:
  assumes "MediaFileOut_new url si guess = Inr s0" and "run cs s0 = Inr s"
    and "m_status s \<noteq> Context_ERROR" and "m_videoStream s = None"
    and "format frame = FRAME_FORMAT_PCMU \<or> format frame = FRAME_FORMAT_OPUS"
    and "e = (if audio_isRtpPacket frame
              then \<lparr>m_payloadData = take (frame_length frame - getHeaderLength env (payload frame))
                                       (drop (getHeaderLength env (payload frame)) (payload frame)),
                    m_payloadSize = frame_length frame - getHeaderLength env (payload frame),
                    m_timeStamp = now env\<rparr>
              else \<lparr>m_payloadData = take (frame_length frame) (payload frame),
                    m_payloadSize = frame_length frame,
                    m_timeStamp = now env\<rparr>)"
  shows "m_audioStream s = None
       \<and> onFrame env frame s =
           (if audio_isRtpPacket frame \<and> frame_length frame < getHeaderLength env (payload frame)
            then Inl AssertionFailed
            else Inr (s\<lparr>m_audioQueue := m_audioQueue s @ [e]\<rparr>))
       \<and> (\<forall>c t t1. step c t = Inr t1 \<and> e \<in> set (m_audioQueue t) \<longrightarrow>
             e \<in> set (m_audioQueue t1) \<or> AvWriteFrame (audioPacket e) \<in> set (new_events t t1))
       \<and> (\<forall>env1 t ctx. e \<in> set (m_audioQueue t) \<and> m_audioStream t \<noteq> None
             \<and> m_videoStream t \<noteq> None \<and> m_context t = Some ctx
             \<and> (m_status t = Context_READY
                \<or> (m_status t = Context_EMPTY \<and> write_header_ok env1
                   \<and> (avio_open_ok env1 \<or> flags (oformat ctx) AND AVFMT_NOFILE \<noteq> 0))) \<longrightarrow>
             (\<exists>t1. onTimeout env1 t = Inr t1
                \<and> AvWriteFrame (audioPacket e) \<in> set (new_events t t1)))
       \<and> (\<forall>env1 t t1 p. m_status t = Context_ERROR \<and> onTimeout env1 t = Inr t1 \<longrightarrow>
             m_status t1 = Context_ERROR \<and> m_audioQueue t1 = m_audioQueue t
             \<and> AvWriteFrame p \<notin> set (new_events t t1))"
proof (intro conjI allI impI)
  from assms(1) have "streams_inv s0" by (rule new_streams_inv)
  then have "streams_inv s" using assms(2) by (rule run_streams_inv)
  with assms(4) show none: "m_audioStream s = None" by (simp add: streams_inv_iff)
  from assms(3,4,5) none have "onFrame env frame s = pushAudio env frame s"
    by (auto simp: onFrame_def onFrame_audio_def)
  with assms(6) show "onFrame env frame s =
           (if audio_isRtpPacket frame \<and> frame_length frame < getHeaderLength env (payload frame)
            then Inl AssertionFailed
            else Inr (s\<lparr>m_audioQueue := m_audioQueue s @ [e]\<rparr>))"
    by (auto simp: pushAudio_result)
next
  fix c :: call and t t1 :: MediaFileOut
  assume "step c t = Inr t1 \<and> e \<in> set (m_audioQueue t)"
  then show "e \<in> set (m_audioQueue t1) \<or> AvWriteFrame (audioPacket e) \<in> set (new_events t t1)"
    using step_keeps_or_writes_audio by blast
next
  fix env1 :: Env and t :: MediaFileOut and ctx :: AVFormatContext
  assume a: "e \<in> set (m_audioQueue t) \<and> m_audioStream t \<noteq> None
             \<and> m_videoStream t \<noteq> None \<and> m_context t = Some ctx
             \<and> (m_status t = Context_READY
                \<or> (m_status t = Context_EMPTY \<and> write_header_ok env1
                   \<and> (avio_open_ok env1 \<or> flags (oformat ctx) AND AVFMT_NOFILE \<noteq> 0)))"
  then have 1: "m_audioStream t \<noteq> None" and 2: "m_videoStream t \<noteq> None"
    and 3: "m_context t = Some ctx"
    and 4: "m_status t = Context_READY
             \<or> (m_status t = Context_EMPTY \<and> write_header_ok env1
                \<and> (avio_open_ok env1 \<or> flags (oformat ctx) AND AVFMT_NOFILE \<noteq> 0))"
    by blast+
  note onTimeout_drains [OF 1 2 3 4]
  with a show "\<exists>t1. onTimeout env1 t = Inr t1
                \<and> AvWriteFrame (audioPacket e) \<in> set (new_events t t1)"
    by blast
next
  fix env1 :: Env and t t1 :: MediaFileOut and p :: AVPacket
  assume a: "m_status t = Context_ERROR \<and> onTimeout env1 t = Inr t1"
  then have "t1 = t\<lparr>io := io t @
      [NotifyAsyncEvent ''RecordingStream'' ''context initialization failed'']\<rparr>"
    using onTimeout_error [of t env1] by simp
  with a show "m_status t1 = Context_ERROR" "m_audioQueue t1 = m_audioQueue t"
    "AvWriteFrame p \<notin> set (new_events t t1)"
    by (simp_all add: new_events_def)
qed

theorem early_audio_is_buffered_witness:
  "MediaFileOut_new ''room.mkv'' 0 (Some example_format) = Inr example_session
   \<and> run [] example_session = Inr example_session
   \<and> m_status example_session \<noteq> Context_ERROR
   \<and> m_videoStream example_session = None
   \<and> format opus_frame = FRAME_FORMAT_OPUS
   \<and> m_audioStream example_session = None
   \<and> onFrame example_env opus_frame example_session =
        Inr (example_session\<lparr>m_audioQueue :=
          [\<lparr>m_payloadData = [21, 22, 23], m_payloadSize = 3, m_timeStamp = 0\<rparr>]\<rparr>)
   \<and> run [OnFrame example_env opus_frame, OnFrame example_env vp8_frame]
        example_session =
        Inr (video_session\<lparr>m_audioQueue :=
          [\<lparr>m_payloadData = [21, 22, 23], m_payloadSize = 3, m_timeStamp = 0\<rparr>]\<rparr>)
   \<and> (\<exists>t1. onTimeout example_env av_session = Inr t1
         \<and> AvWriteFrame \<lparr>data = [21, 22, 23], size_p = 3, stream_index = 1\<rparr>
             \<in> set (new_events av_session t1))"
proof -
  let ?e = "\<lparr>m_payloadData = [21, 22, 23], m_payloadSize = 3, m_timeStamp = 0\<rparr>"
  have h1: "MediaFileOut_new ''room.mkv'' 0 (Some example_format) = Inr example_session"
    by (rule new_example_session)
  have h2: "run [] example_session = Inr example_session" by simp
  have h3: "m_status example_session \<noteq> Context_ERROR" by (simp add: example_session_def)
  have h4: "m_videoStream example_session = None" by (simp add: example_session_def)
  have h5: "format opus_frame = FRAME_FORMAT_PCMU \<or> format opus_frame = FRAME_FORMAT_OPUS"
    by (simp add: opus_frame_def)
  have h6: "?e = (if audio_isRtpPacket opus_frame
              then \<lparr>m_payloadData = take (frame_length opus_frame - getHeaderLength example_env (payload opus_frame))
                                       (drop (getHeaderLength example_env (payload opus_frame)) (payload opus_frame)),
                    m_payloadSize = frame_length opus_frame - getHeaderLength example_env (payload opus_frame),
                    m_timeStamp = now example_env\<rparr>
              else \<lparr>m_payloadData = take (frame_length opus_frame) (payload opus_frame),
                    m_payloadSize = frame_length opus_frame,
                    m_timeStamp = now example_env\<rparr>)"
    by (simp add: opus_frame_def example_env_def)
  note w = early_audio_is_buffered [OF h1 h2 h3 h4 h5 h6]
  from w have a: "m_audioStream example_session = None" by blast
  from w have b: "onFrame example_env opus_frame example_session =
        (if audio_isRtpPacket opus_frame
            \<and> frame_length opus_frame < getHeaderLength example_env (payload opus_frame)
         then Inl AssertionFailed
         else Inr (example_session\<lparr>m_audioQueue := m_audioQueue example_session @ [?e]\<rparr>))"
    by blast
  have b': "onFrame example_env opus_frame example_session =
        Inr (example_session\<lparr>m_audioQueue := [?e]\<rparr>)"
    unfolding b by (simp add: example_session_def opus_frame_def example_env_def)
  have c: "onFrame example_env vp8_frame (example_session\<lparr>m_audioQueue := [?e]\<rparr>) =
        Inr (video_session\<lparr>m_audioQueue := [?e]\<rparr>)"
    by (simp add: fixture_defs onFrame_defs flag_defs)
  have q: "?e \<in> set (m_audioQueue av_session) \<and> m_audioStream av_session \<noteq> None
      \<and> m_videoStream av_session \<noteq> None
      \<and> m_context av_session = Some \<lparr>filename = ''room.mkv'',
            oformat = \<lparr>flags = 0x0440, video_codec = AV_CODEC_ID_VP8\<rparr>,
            nb_streams = 2, pb_open = False\<rparr>
      \<and> (m_status av_session = Context_READY
          \<or> (m_status av_session = Context_EMPTY \<and> write_header_ok example_env
             \<and> (avio_open_ok example_env
                \<or> flags (oformat \<lparr>filename = ''room.mkv'',
                     oformat = \<lparr>flags = 0x0440, video_codec = AV_CODEC_ID_VP8\<rparr>,
                     nb_streams = 2, pb_open = False\<rparr>) AND AVFMT_NOFILE \<noteq> 0)))"
    by (simp add: fixture_defs)
  from w q have d: "\<exists>t1. onTimeout example_env av_session = Inr t1
         \<and> AvWriteFrame (audioPacket ?e) \<in> set (new_events av_session t1)"
    by blast
  have p: "audioPacket ?e = \<lparr>data = [21, 22, 23], size_p = 3, stream_index = 1\<rparr>"
    by (simp add: audioPacket_def)
  from h1 h3 h4 a b' c d show ?thesis
    unfolding p by (simp add: opus_frame_def)
qed

text \<open>
  C10, as the claim has it, fails in two ways. A flagged frame shorter than its RTP
  header is not queued: \<^verbatim>\<open>onFrame\<close> stops at the assertion. And a frame that was queued
  before the video stream existed need not be written once both streams exist: the
  session below is built by the constructor, receives an OPUS frame, a VP8 frame and an
  OPUS frame, and then sees a tick in which \<^verbatim>\<open>avio_open\<close> fails. Both streams exist, the
  early frame is still in the audio queue, the status is the error state, and after one
  more tick the log still holds no packet.
\<close>

theorem early_audio_can_stay_unwritten:
  "MediaFileOut_new ''room.mkv'' 0 (Some example_format) = Inr example_session
   \<and> run [OnFrame example_env opus_frame, OnFrame example_env vp8_frame,
           OnFrame example_env opus_frame, OnTimeout failing_env, OnTimeout example_env]
        example_session = Inr stuck_session
   \<and> m_videoStream stuck_session = Some \<lparr>index = 0, codec = example_video_codec\<rparr>
   \<and> m_audioStream stuck_session = Some \<lparr>index = 1, codec = example_audio_codec\<rparr>
   \<and> m_status stuck_session = Context_ERROR
   \<and> m_audioQueue stuck_session =
        [\<lparr>m_payloadData = [21, 22, 23], m_payloadSize = 3, m_timeStamp = 0\<rparr>,
         \<lparr>m_payloadData = [21, 22, 23], m_payloadSize = 3, m_timeStamp = 0\<rparr>]
   \<and> io stuck_session =
        [AvioOpen ''room.mkv'' False,
         NotifyAsyncEvent ''RecordingStream''
           ''output file does not exist or cannot be opened for write'',
         NotifyAsyncEvent ''RecordingStream'' ''context initialization failed'']
   \<and> m_status example_session = Context_EMPTY
   \<and> m_videoStream example_session = None
   \<and> audio_isRtpPacket short_rtp_frame
   \<and> frame_length short_rtp_frame = 3
   \<and> getHeaderLength example_env (payload short_rtp_frame) = 12
   \<and> onFrame example_env short_rtp_frame example_session = Inl AssertionFailed"
proof -
  have a: "onFrame example_env short_rtp_frame example_session = Inl AssertionFailed"
    by (simp add: fixture_defs onFrame_defs)
  have s: "m_videoStream stuck_session = Some \<lparr>index = 0, codec = example_video_codec\<rparr>"
    "m_audioStream stuck_session = Some \<lparr>index = 1, codec = example_audio_codec\<rparr>"
    "m_status stuck_session = Context_ERROR"
    "m_audioQueue stuck_session =
        [\<lparr>m_payloadData = [21, 22, 23], m_payloadSize = 3, m_timeStamp = 0\<rparr>,
         \<lparr>m_payloadData = [21, 22, 23], m_payloadSize = 3, m_timeStamp = 0\<rparr>]"
    "io stuck_session =
        [AvioOpen ''room.mkv'' False,
         NotifyAsyncEvent ''RecordingStream''
           ''output file does not exist or cannot be opened for write'',
         NotifyAsyncEvent ''RecordingStream'' ''context initialization failed'']"
    by (simp_all add: stuck_session_def av_session_def video_session_def)
  have f: "m_status example_session = Context_EMPTY"
    "m_videoStream example_session = None"
    "audio_isRtpPacket short_rtp_frame"
    "frame_length short_rtp_frame = 3"
    "getHeaderLength example_env (payload short_rtp_frame) = 12"
    by (simp_all add: example_session_def short_rtp_frame_def example_env_def)
  show ?thesis
    by (intro conjI new_example_session early_run_stuck a s f)
qed

section \<open>Properties of the slot adapter\<close>

lemma decoder_run_log:
  "decoder_run d cs compositor = Inr compositor1 \<Longrightarrow>
   compositor1 = compositor @ pushed (m_slot d) cs"
proof (induction cs arbitrary: compositor)
  case Nil
  then show ?case by simp
next
  case (Cons c cs)
  show ?case
  proof (cases c)
    case (SetInput fmt)
    with Cons show ?thesis by (auto simp: setInput_def split: if_splits)
  next
    case UnsetInput
    with Cons show ?thesis by (auto simp: unsetInput_def)
  next
    case (DecoderOnFrame fmt pl len ts)
    with Cons.prems have r: "decoder_run d cs (compositor @ [PushInput (m_slot d) pl]) = Inr compositor1"
      by (auto simp: decoder_onFrame_def split: if_splits)
    from Cons.IH [OF r] DecoderOnFrame show ?thesis by simp
  qed
qed

lemma pushed_without_onFrame:
  "\<not> list_ex is_DecoderOnFrame cs \<Longrightarrow> pushed slot cs = []"
  by (induction slot cs rule: pushed.induct) auto

text \<open>
  C9. Over the life of an adapter bound to a slot, the compositor receives
  \<^verbatim>\<open>activateInput(slot)\<close> first and once, from the constructor, and
  \<^verbatim>\<open>deActivateInput(slot)\<close> last and once, from the destructor. Between them it receives
  one \<^verbatim>\<open>pushInput\<close> for each call of \<^verbatim>\<open>onFrame\<close> and nothing else, so nothing at all
  when \<^verbatim>\<open>onFrame\<close> is never called; an adapter destroyed right after its construction
  leaves exactly the two calls.
\<close>

theorem slot_adapter_lifetime:
  "lifetime slot [] compositor = Inr (compositor @ [ActivateInput slot, DeActivateInput slot])
   \<and> (lifetime slot cs compositor = Inr compositor1 \<longrightarrow>
        compositor1 = compositor @ [ActivateInput slot] @ pushed slot cs @ [DeActivateInput slot])
   \<and> (\<not> list_ex is_DecoderOnFrame cs \<longrightarrow> pushed slot cs = [])"
proof (intro conjI impI)
  show "lifetime slot [] compositor = Inr (compositor @ [ActivateInput slot, DeActivateInput slot])"
    by (simp add: lifetime_def FakedVideoFrameDecoder_new_def FakedVideoFrameDecoder_delete_def)
next
  assume a: "lifetime slot cs compositor = Inr compositor1"
  then obtain c2 where r: "decoder_run \<lparr>m_slot = slot\<rparr> cs (compositor @ [ActivateInput slot]) = Inr c2"
    and e: "compositor1 = c2 @ [DeActivateInput slot]"
    by (auto simp: lifetime_def FakedVideoFrameDecoder_new_def FakedVideoFrameDecoder_delete_def
          split: sum.splits)
  from decoder_run_log [OF r] e
  show "compositor1 = compositor @ [ActivateInput slot] @ pushed slot cs @ [DeActivateInput slot]"
    by simp
next
  assume "\<not> list_ex is_DecoderOnFrame cs"
  then show "pushed slot cs = []" by (rule pushed_without_onFrame)
qed

theorem slot_adapter_lifetime_witness:
  "lifetime 3 [SetInput FRAME_FORMAT_I420, UnsetInput] [] = Inr [ActivateInput 3, DeActivateInput 3]
   \<and> \<not> list_ex is_DecoderOnFrame [SetInput FRAME_FORMAT_I420, UnsetInput]
   \<and> pushed 3 [SetInput FRAME_FORMAT_I420, UnsetInput] = []
   \<and> lifetime 3 [] [] = Inr [ActivateInput 3, DeActivateInput 3]"
  using slot_adapter_lifetime [of 3 "[]" "[SetInput FRAME_FORMAT_I420, UnsetInput]"
          "[ActivateInput 3, DeActivateInput 3]"]
  by (simp add: lifetime_def FakedVideoFrameDecoder_new_def FakedVideoFrameDecoder_delete_def
        setInput_def unsetInput_def)

end
